theory Spec2Isabelle
  imports Main "HOL-Library.AList"
begin

section \<open>Go values used by the packages\<close>

text \<open>
  The errors the packages build with \<^verbatim>\<open>errors.New\<close> and \<^verbatim>\<open>fmt.Errorf\<close>, one
  constructor for each message, with the values formatted into it. \<open>External\<close> is an
  error made elsewhere: by the broker client, the JSON decoder, a plugin or the user's
  function.
\<close>

datatype error =
    NoOutput
  | OutputNotFound string
  | EnvNotFound string
  | InvalidRuntime string
  | InvalidInputType string string
  | InvalidOutputType string string
  | PodNameNotFound
  | PodNamespaceNotFound
  | InvalidTracingProviderName string
  | TracingConfigIncorrect
  | ErrorParsingPort string
  | NoInputsDefined
  | InvalidInputTypeOnRegister string
  | External string

text \<open>
  A run-time panic of the Go runtime is a value of the model, so that every place where
  the source can panic is a branch of the function that embeds it. \<open>PanicWith e\<close> is
  \<^verbatim>\<open>panic(e)\<close> called by the source itself.
\<close>

datatype go_panic =
    SliceBoundsOutOfRange nat nat
  | IndexOutOfRange nat nat
  | NilPointerDereference
  | PanicWith error

datatype 'a go = Panic go_panic | Val 'a

definition bind_go :: "'a go \<Rightarrow> ('a \<Rightarrow> 'b go) \<Rightarrow> 'b go" where
  "bind_go m f = (case m of Panic p \<Rightarrow> Panic p | Val x \<Rightarrow> f x)"

subsection \<open>String slices with their capacity\<close>

text \<open>
  A \<^verbatim>\<open>[]string\<close> is a window on a backing array. \<open>Slice xs sp\<close> holds the \<open>len\<close>
  visible elements \<open>xs\<close> and the cells \<open>sp\<close> of the backing array between \<open>len\<close> and
  \<open>cap\<close>; \<open>NilSlice\<close> is the nil slice (length and capacity 0).
\<close>

datatype slice = NilSlice | Slice "string list" "string list"

fun elems :: "slice \<Rightarrow> string list" where
  "elems NilSlice = []"
| "elems (Slice xs sp) = xs"

fun spare :: "slice \<Rightarrow> string list" where
  "spare NilSlice = []"
| "spare (Slice xs sp) = sp"

definition len :: "slice \<Rightarrow> nat" where
  "len s = length (elems s)"

definition cap :: "slice \<Rightarrow> nat" where
  "cap s = length (elems s) + length (spare s)"

text \<open>
  \<^verbatim>\<open>s[:h]\<close>: the Go runtime panics unless \<open>h \<le> cap s\<close>; the result keeps the backing
  array, so its capacity is that of \<open>s\<close>.
\<close>

definition slice_to :: "slice \<Rightarrow> nat \<Rightarrow> slice go" where
  "slice_to s h =
     (if h \<le> cap s
      then (if s = NilSlice then Val NilSlice
            else Val (Slice (take h (elems s @ spare s)) (drop h (elems s @ spare s))))
      else Panic (SliceBoundsOutOfRange h (cap s)))"

text \<open>
  \<^verbatim>\<open>append(s, vs...)\<close>: in place when the capacity suffices (the copy is a memmove, so
  the values appended are those \<open>vs\<close> had before the call, also when \<open>vs\<close> overlaps the
  backing array), into a fresh zeroed array otherwise. The capacity of the fresh array is
  the runtime's choice: \<open>grow\<close> gives it, from the old capacity and the length needed, and
  it is never less than the length needed.
\<close>

definition append_go :: "(nat \<Rightarrow> nat \<Rightarrow> nat) \<Rightarrow> slice \<Rightarrow> string list \<Rightarrow> slice" where
  "append_go grow s vs =
     (if vs = [] then s
      else if len s + length vs \<le> cap s
      then Slice (elems s @ vs) (drop (length vs) (spare s))
      else Slice (elems s @ vs)
             (replicate (max (len s + length vs) (grow (cap s) (len s + length vs))
                          - (len s + length vs)) []))"

text \<open>\<^verbatim>\<open>s[i] = v\<close>: panics unless \<open>i < len s\<close>.\<close>

definition set_index :: "slice \<Rightarrow> nat \<Rightarrow> string \<Rightarrow> slice go" where
  "set_index s i v =
     (if i < len s then Val (Slice ((elems s)[i := v]) (spare s))
      else Panic (IndexOutOfRange i (len s)))"

subsection \<open>Injecting the tracing plugin name\<close>

text \<open>\<^verbatim>\<open>hasPlugin\<close>: the range loop returns at the first element equal to the target.\<close>

fun hasPlugin_list :: "string list \<Rightarrow> string \<Rightarrow> bool" where
  "hasPlugin_list [] target = False"
| "hasPlugin_list (plg # plugins) target =
     (if plg = target then True else hasPlugin_list plugins target)"

definition hasPlugin :: "slice \<Rightarrow> string \<Rightarrow> bool" where
  "hasPlugin plugins target = hasPlugin_list (elems plugins) target"

definition registerTracingPluginIntoPrePlugins ::
  "(nat \<Rightarrow> nat \<Rightarrow> nat) \<Rightarrow> slice \<Rightarrow> string \<Rightarrow> slice" where
  "registerTracingPluginIntoPrePlugins grow plugins target =
     (let plugins1 = (if plugins = NilSlice then Slice [] [] else plugins)
      in if \<not> hasPlugin plugins1 target then append_go grow plugins1 [target]
         else plugins1)"

definition registerTracingPluginIntoPostPlugins ::
  "(nat \<Rightarrow> nat \<Rightarrow> nat) \<Rightarrow> slice \<Rightarrow> string \<Rightarrow> slice go" where
  "registerTracingPluginIntoPostPlugins grow plugins target =
     (if \<not> hasPlugin plugins target
      then bind_go (slice_to plugins 1)
             (\<lambda>front. set_index (append_go grow front (elems plugins)) 0 target)
      else Val plugins)"

section \<open>The context package\<close>

subsection \<open>Constants\<close>

type_synonym bytes = string
type_synonym strmap = "(string \<times> string) list"

definition Async :: string where "Async = ''Async''"
definition Knative :: string where "Knative = ''Knative''"
definition OpenFuncBinding :: string where "OpenFuncBinding = ''bindings''"
definition OpenFuncTopic :: string where "OpenFuncTopic = ''pubsub''"
definition Success :: int where "Success = 200"
definition InternalError :: int where "InternalError = 500"
definition defaultPort :: string where "defaultPort = ''8080''"
definition daprSidecarGRPCPort :: string where "daprSidecarGRPCPort = ''50001''"
definition TracingProviderSkywalking :: string where
  "TracingProviderSkywalking = ''skywalking''"
definition TracingProviderOpentelemetry :: string where
  "TracingProviderOpentelemetry = ''opentelemetry''"
definition KubernetesMode :: string where "KubernetesMode = ''kubernetes''"
definition SelfHostMode :: string where "SelfHostMode = ''self-host''"
definition FunctionContextEnvName :: string where "FunctionContextEnvName = ''FUNC_CONTEXT''"

subsection \<open>Structs\<close>

record Input =
  Uri :: string
  Component :: string
  Type :: string
  Metadata :: strmap

text \<open>\<^verbatim>\<open>Output\<close> has the fields of \<^verbatim>\<open>Input\<close>, in the same order, and \<^verbatim>\<open>Operation\<close>.\<close>

record Output = Input +
  Operation :: string

text \<open>
  \<^verbatim>\<open>Out\<close>: \<open>Data\<close> is \<open>None\<close> for a nil byte slice. A nil \<^verbatim>\<open>Metadata\<close> map reads like
  the empty one, and nothing here writes to it, so both are the empty association list.
\<close>

record Out =
  Code :: int
  Data :: "bytes option"
  OutMetadata :: strmap

record TracingProvider =
  ProviderName :: string
  OapServer :: string

record PluginsTracing =
  Enable :: bool
  Provider :: "TracingProvider option"
  Tags :: "strmap option"
  Baggage :: "strmap option"

text \<open>
  The events of the Dapr SDK and of the CloudEvents SDK, with the fields the framework
  reads. The \<^verbatim>\<open>Data\<close> of a topic event is an \<^verbatim>\<open>interface{}\<close>: a byte slice, a value
  that \<^verbatim>\<open>json.Marshal\<close> encodes (held as its encoding), or one it rejects.
\<close>

record BindingEvent =
  BindingData :: "bytes option"
  BindingMetadata :: strmap

datatype topic_payload = RawBytes "bytes option" | Encodable bytes | Unencodable

record TopicEvent =
  TopicID :: string
  TopicData :: topic_payload

record CloudEvent =
  CloudEventID :: string
  CloudEventData :: bytes

text \<open>
  The \<^verbatim>\<open>interface{}\<close> handed to \<^verbatim>\<open>SetEventMeta\<close>, by its dynamic type: one of the three
  pointer types (the pointer may be nil), or anything else (the nil interface too), named
  by its type.
\<close>

datatype event =
    BindingEventPtr "BindingEvent option"
  | TopicEventPtr "TopicEvent option"
  | CloudEventPtr "CloudEvent option"
  | OtherEvent string

record EventMetadata =
  InputName :: string
  BindingEventMeta :: "BindingEvent option"
  TopicEventMeta :: "TopicEvent option"
  CloudEventMeta :: "CloudEvent option"

text \<open>
  The HTTP request and response writer of a synchronous call are opaque to the framework:
  it only stores them and hands them to the user's function.
\<close>

record SyncRequestMetadata =
  ResponseWriter :: "string option"
  Request :: "string option"

text \<open>
  The Dapr client, as the two calls \<^verbatim>\<open>Send\<close> makes. \<^verbatim>\<open>InvokeBinding\<close> returns a
  response (nil or a binding event) and an error.
\<close>

record InvokeBindingRequest =
  ReqName :: string
  ReqOperation :: string
  ReqData :: "bytes option"
  ReqMetadata :: strmap

record Client =
  PublishEvent :: "string \<Rightarrow> string \<Rightarrow> bytes option \<Rightarrow> error option"
  InvokeBinding :: "InvokeBindingRequest \<Rightarrow> BindingEvent option \<times> error option"

text \<open>
  \<^verbatim>\<open>Context\<close>. A Go map is \<open>None\<close> when nil and an association list otherwise (the
  order of the list is the order in which a \<^verbatim>\<open>range\<close> visits it, which Go leaves open);
  its values are pointers, \<open>None\<close> when nil. \<open>OutPtr\<close> is the field \<^verbatim>\<open>Out\<close>: a pointer
  into the heap of \<^verbatim>\<open>Out\<close> objects, \<open>None\<close> when nil. The mutex is not modelled: the
  model is sequential.
\<close>

record Context =
  Name :: string
  Version :: string
  Inputs :: "(string \<times> Input option) list option"
  Outputs :: "(string \<times> Output option) list option"
  Runtime :: string
  Port :: string
  EventMeta :: "EventMetadata option"
  SyncRequestMeta :: "SyncRequestMetadata option"
  PrePlugins :: slice
  PostPlugins :: slice
  PluginsTracing :: "PluginsTracing option"
  OutPtr :: "nat option"
  Error :: "error option"
  HttpPattern :: string
  podName :: string
  podNamespace :: string
  daprClient :: "Client option"
  mode :: string

subsection \<open>Guards and \<^verbatim>\<open>Send\<close>\<close>

text \<open>
  \<^verbatim>\<open>reflect.DeepEqual\<close> of a map with the empty map literal: true when the map is not nil
  and has no entry (a nil map and a non-nil one are never deeply equal).
\<close>

definition DeepEqual_empty :: "(string \<times> 'a) list option \<Rightarrow> bool" where
  "DeepEqual_empty m = (case m of None \<Rightarrow> False | Some kvs \<Rightarrow> kvs = [])"

definition HasInputs :: "'a Context_scheme \<Rightarrow> bool" where
  "HasInputs ctx = (if DeepEqual_empty (Inputs ctx) then False else True)"

definition HasOutputs :: "'a Context_scheme \<Rightarrow> bool" where
  "HasOutputs ctx = (if DeepEqual_empty (Outputs ctx) then False else True)"

text \<open>\<^verbatim>\<open>v, ok := m[k]\<close>: a nil map has no key.\<close>

definition map_index :: "(string \<times> 'a) list option \<Rightarrow> string \<Rightarrow> 'a option" where
  "map_index m k = (case m of None \<Rightarrow> None | Some kvs \<Rightarrow> map_of kvs k)"

text \<open>
  \<^verbatim>\<open>Send\<close> returns a pair (bytes, error). The calls on the client panic when the client
  is nil, and \<^verbatim>\<open>output.Type\<close> panics when the map holds a nil pointer. An output whose
  type is neither constant falls through the \<^verbatim>\<open>switch\<close> and returns (nil, nil).
\<close>

definition Send ::
  "'a Context_scheme \<Rightarrow> string \<Rightarrow> bytes option \<Rightarrow> (bytes option \<times> error option) go" where
  "Send ctx outputName data =
     (if HasOutputs ctx then Val (None, Some NoOutput)
      else case map_index (Outputs ctx) outputName of
        None \<Rightarrow> Val (None, Some (OutputNotFound outputName))
      | Some None \<Rightarrow> Panic NilPointerDereference
      | Some (Some output) \<Rightarrow>
          bind_go
            (if Type output = OpenFuncTopic then
               (case daprClient ctx of
                  None \<Rightarrow> Panic NilPointerDereference
                | Some c \<Rightarrow> Val (None, PublishEvent c (Component output) (Uri output) data))
             else if Type output = OpenFuncBinding then
               (case daprClient ctx of
                  None \<Rightarrow> Panic NilPointerDereference
                | Some c \<Rightarrow>
                    Val (InvokeBinding c
                          \<lparr>ReqName = Component output, ReqOperation = Operation output,
                           ReqData = data, ReqMetadata = Metadata output\<rparr>))
             else Val (None, None))
            (\<lambda>(response, err).
               if err \<noteq> None then Val (None, err)
               else case response of
                      Some r \<Rightarrow> Val (BindingData r, None)
                    | None \<Rightarrow> Val (None, None)))"

subsection \<open>\<^verbatim>\<open>SetEventMeta\<close>\<close>

text \<open>
  The result is the context and the lines written with \<^verbatim>\<open>klog.Error\<close>. Every branch
  writes through \<^verbatim>\<open>ctx.EventMeta\<close>, a pointer: the call panics when it is nil.
\<close>

definition SetEventMeta ::
  "'a Context_scheme \<Rightarrow> string \<Rightarrow> event \<Rightarrow> ('a Context_scheme \<times> string list) go" where
  "SetEventMeta ctx inputName ev =
     (case EventMeta ctx of
        None \<Rightarrow> Panic NilPointerDereference
      | Some em \<Rightarrow>
          (let (em1, logged) =
                 (case ev of
                    BindingEventPtr e \<Rightarrow> (em\<lparr>BindingEventMeta := e\<rparr>, [])
                  | TopicEventPtr e \<Rightarrow> (em\<lparr>TopicEventMeta := e\<rparr>, [])
                  | CloudEventPtr e \<Rightarrow> (em\<lparr>CloudEventMeta := e\<rparr>, [])
                  | OtherEvent t \<Rightarrow> (em, [''failed to resolve event type: %v'' @ t]))
           in Val (ctx\<lparr>EventMeta := Some (em1\<lparr>InputName := inputName\<rparr>)\<rparr>, logged)))"

subsection \<open>\<^verbatim>\<open>parseContext\<close>\<close>

text \<open>
  The environment variables \<^verbatim>\<open>parseContext\<close> reads; \<^verbatim>\<open>os.Getenv\<close> gives the empty
  string for a variable that is not set.
\<close>

record Env =
  FUNC_CONTEXT :: string
  CONTEXT_MODE :: string
  POD_NAME :: string
  POD_NAMESPACE :: string
  DAPR_GRPC_PORT :: string

text \<open>
  \<^verbatim>\<open>strconv.Atoi\<close> accepts an optional sign and then one or more decimal digits, of a
  value that fits a 64-bit \<^verbatim>\<open>int\<close>.
\<close>

definition is_digit :: "char \<Rightarrow> bool" where
  "is_digit c = (48 \<le> (of_char c :: nat) \<and> (of_char c :: nat) \<le> 57)"

definition digits_value :: "string \<Rightarrow> nat" where
  "digits_value ds = foldl (\<lambda>a c. 10 * a + (of_char c - 48)) 0 ds"

definition Atoi :: "string \<Rightarrow> error + int" where
  "Atoi s =
     (let neg = (s \<noteq> [] \<and> hd s = CHR ''-'');
          ds = (if s \<noteq> [] \<and> (hd s = CHR ''+'' \<or> hd s = CHR ''-'') then tl s else s)
      in if ds = [] then Inl (External (''invalid syntax: '' @ s))
         else if list_all is_digit ds then
           (if neg then
              (if digits_value ds \<le> 2 ^ 63 then Inr (- int (digits_value ds))
               else Inl (External (''value out of range: '' @ s)))
            else
              (if digits_value ds < 2 ^ 63 then Inr (int (digits_value ds))
               else Inl (External (''value out of range: '' @ s))))
         else Inl (External (''invalid syntax: '' @ s)))"

text \<open>A function that returns an error or a value, and may panic.\<close>

definition bind_err :: "(error + 'a) go \<Rightarrow> ('a \<Rightarrow> (error + 'b) go) \<Rightarrow> (error + 'b) go" where
  "bind_err m f =
     (case m of Panic p \<Rightarrow> Panic p | Val (Inl e) \<Rightarrow> Val (Inl e) | Val (Inr x) \<Rightarrow> f x)"

text \<open>\<^verbatim>\<open>for name, in := range m\<close>: a nil map has nothing to visit.\<close>

definition range_map :: "(string \<times> 'a) list option \<Rightarrow> (string \<times> 'a) list" where
  "range_map m = (case m of None \<Rightarrow> [] | Some kvs \<Rightarrow> kvs)"

fun checkInputTypes :: "(string \<times> Input option) list \<Rightarrow> (error + unit) go" where
  "checkInputTypes [] = Val (Inr ())"
| "checkInputTypes ((name, inp) # rest) =
     (case inp of
        None \<Rightarrow> Panic NilPointerDereference
      | Some i \<Rightarrow>
          if Type i = OpenFuncBinding \<or> Type i = OpenFuncTopic then checkInputTypes rest
          else Val (Inl (InvalidInputType name (Type i))))"

fun checkOutputTypes :: "(string \<times> Output option) list \<Rightarrow> (error + unit) go" where
  "checkOutputTypes [] = Val (Inr ())"
| "checkOutputTypes ((name, out) # rest) =
     (case out of
        None \<Rightarrow> Panic NilPointerDereference
      | Some out1 \<Rightarrow>
          if Type out1 = OpenFuncBinding \<or> Type out1 = OpenFuncTopic then checkOutputTypes rest
          else Val (Inl (InvalidOutputType name (Type out1))))"

text \<open>The two validation blocks of \<^verbatim>\<open>parseContext\<close>, each behind its guard.\<close>

definition validateInputTypes :: "Context \<Rightarrow> (error + unit) go" where
  "validateInputTypes ctx =
     (if \<not> HasInputs ctx then checkInputTypes (range_map (Inputs ctx)) else Val (Inr ()))"

definition validateOutputTypes :: "Context \<Rightarrow> (error + unit) go" where
  "validateOutputTypes ctx =
     (if \<not> HasOutputs ctx then checkOutputTypes (range_map (Outputs ctx)) else Val (Inr ()))"

text \<open>The context \<^verbatim>\<open>parseContext\<close> starts from: zero values, and two empty maps.\<close>

definition newContext :: Context where
  "newContext =
     \<lparr>Name = [], Version = [], Inputs = Some [], Outputs = Some [], Runtime = [],
      Port = [], EventMeta = None, SyncRequestMeta = None, PrePlugins = NilSlice,
      PostPlugins = NilSlice, PluginsTracing = None, OutPtr = None, Error = None,
      HttpPattern = [], podName = [], podNamespace = [], daprClient = None, mode = []\<rparr>"

definition emptyEventMetadata :: EventMetadata where
  "emptyEventMetadata =
     \<lparr>InputName = [], BindingEventMeta = None, TopicEventMeta = None, CloudEventMeta = None\<rparr>"

definition emptySyncRequestMetadata :: SyncRequestMetadata where
  "emptySyncRequestMetadata = \<lparr>ResponseWriter = None, Request = None\<rparr>"

text \<open>The block that reads the pod's name and namespace in Kubernetes mode.\<close>

definition parseContext_pod :: "Env \<Rightarrow> Context \<Rightarrow> (error + Context) go" where
  "parseContext_pod env ctx =
     (if mode ctx = KubernetesMode then
        (if POD_NAME env = [] then Val (Inl PodNameNotFound)
         else if POD_NAMESPACE env = [] then Val (Inl PodNamespaceNotFound)
         else Val (Inr (ctx\<lparr>podName := POD_NAME env, podNamespace := POD_NAMESPACE env\<rparr>)))
      else Val (Inr ctx))"

text \<open>
  The tracing block. The pre-plugin list is assigned before the post-plugin list is
  computed; the tags are written only into a map that is not nil.
\<close>

definition tracingTags :: "Context \<Rightarrow> strmap \<Rightarrow> strmap" where
  "tracingTags ctx tags =
     (let tags1 = (if map_of tags ''func'' \<noteq> Some (Name ctx)
                   then AList.update ''func'' (Name ctx) tags else tags)
      in AList.update ''namespace'' (podNamespace ctx)
           (AList.update ''instance'' (podName ctx) tags1))"

definition parseContext_tracing ::
  "(nat \<Rightarrow> nat \<Rightarrow> nat) \<Rightarrow> Context \<Rightarrow> (error + Context) go" where
  "parseContext_tracing grow ctx =
     (case PluginsTracing ctx of
        None \<Rightarrow> Val (Inr ctx)
      | Some pt \<Rightarrow>
          if \<not> Enable pt then Val (Inr ctx)
          else
           (case Provider pt of
            None \<Rightarrow> Val (Inl TracingConfigIncorrect)
          | Some pr \<Rightarrow>
              if ProviderName pr = [] then Val (Inl TracingConfigIncorrect)
              else if ProviderName pr = TracingProviderSkywalking
                      \<or> ProviderName pr = TracingProviderOpentelemetry
              then
                (let ctx1 = ctx\<lparr>PrePlugins :=
                              registerTracingPluginIntoPrePlugins grow (PrePlugins ctx)
                                (ProviderName pr)\<rparr>
                 in case registerTracingPluginIntoPostPlugins grow (PostPlugins ctx1)
                           (ProviderName pr) of
                      Panic p \<Rightarrow> Panic p
                    | Val post \<Rightarrow>
                        (let ctx2 = ctx1\<lparr>PostPlugins := post\<rparr>
                         in case Tags pt of
                              None \<Rightarrow> Val (Inr ctx2)
                            | Some tags \<Rightarrow>
                                Val (Inr (ctx2\<lparr>PluginsTracing :=
                                            Some (pt\<lparr>Tags := Some (tracingTags ctx2 tags)\<rparr>)\<rparr>))))
              else Val (Inl (InvalidTracingProviderName (ProviderName pr)))))"

definition parseContext_port :: "Context \<Rightarrow> (error + Context) go" where
  "parseContext_port ctx =
     (if Port ctx = [] then Val (Inr (ctx\<lparr>Port := defaultPort\<rparr>))
      else case Atoi (Port ctx) of
             Inl e \<Rightarrow> Val (Inl (ErrorParsingPort (Port ctx)))
           | Inr n \<Rightarrow> Val (Inr ctx))"

text \<open>
  \<^verbatim>\<open>parseContext\<close>. \<^verbatim>\<open>json.Unmarshal\<close> is the parameter \<open>unmarshal\<close>: it fills the
  context it is given from the document, or fails. The result is the context and the value
  the function stores in the package variable \<^verbatim>\<open>clientGRPCPort\<close>.
\<close>

definition parseContext ::
  "(string \<Rightarrow> Context \<Rightarrow> error + Context) \<Rightarrow> (nat \<Rightarrow> nat \<Rightarrow> nat) \<Rightarrow> Env
     \<Rightarrow> (error + Context \<times> string) go" where
  "parseContext unmarshal grow env =
     (if FUNC_CONTEXT env = [] then Val (Inl (EnvNotFound FunctionContextEnvName))
      else case unmarshal (FUNC_CONTEXT env) newContext of
        Inl e \<Rightarrow> Val (Inl e)
      | Inr ctx1 \<Rightarrow>
          if Runtime ctx1 = Async \<or> Runtime ctx1 = Knative
          then
            (let ctx2 = ctx1\<lparr>EventMeta := Some emptyEventMetadata,
                             SyncRequestMeta := Some emptySyncRequestMetadata\<rparr>
             in bind_err (validateInputTypes ctx2)
                  (\<lambda>_. bind_err (validateOutputTypes ctx2)
                  (\<lambda>_. bind_err (parseContext_pod env
                                   (ctx2\<lparr>mode := (if CONTEXT_MODE env = SelfHostMode
                                                   then SelfHostMode else KubernetesMode)\<rparr>))
                  (\<lambda>ctx4. bind_err (parseContext_tracing grow ctx4)
                  (\<lambda>ctx5. bind_err (parseContext_port ctx5)
                  (\<lambda>ctx6. Val (Inr (ctx6, if DAPR_GRPC_PORT env = []
                                           then daprSidecarGRPCPort
                                           else DAPR_GRPC_PORT env))))))))
          else Val (Inl (InvalidRuntime (Runtime ctx1))))"

section \<open>The runtime package\<close>

subsection \<open>The state a call works on\<close>

text \<open>
  The framework hands one \<^verbatim>\<open>*Context\<close> to every handler it registers, and the
  \<^verbatim>\<open>Out\<close> objects are reached through pointers, so a call works on a store: the
  context, and the heap of \<^verbatim>\<open>Out\<close> objects, where a pointer is an index and a new
  object goes to the end. What plugins and the user's function keep for themselves is the
  extension of the record. Fields of \<^verbatim>\<open>Context\<close> the framework never reads
  (\<^verbatim>\<open>RequestID\<close>, \<^verbatim>\<open>Ctx\<close>, \<^verbatim>\<open>State\<close>) are left out.
\<close>

record World =
  fctx :: Context
  outs :: "Out list"

definition deref :: "'x World_scheme \<Rightarrow> nat \<Rightarrow> Out" where
  "deref w p = outs w ! p"

definition new_Out :: "Out \<Rightarrow> 'x World_scheme \<Rightarrow> nat \<times> 'x World_scheme" where
  "new_Out obj w = (length (outs w), w\<lparr>outs := outs w @ [obj]\<rparr>)"

definition NewFunctionOut :: "'x World_scheme \<Rightarrow> nat \<times> 'x World_scheme" where
  "NewFunctionOut w = new_Out \<lparr>Code = 0, Data = None, OutMetadata = []\<rparr> w"

definition ReturnOnSuccess :: "'x World_scheme \<Rightarrow> nat \<times> 'x World_scheme" where
  "ReturnOnSuccess w = new_Out \<lparr>Code = Success, Data = None, OutMetadata = []\<rparr> w"

definition ReturnOnInternalError :: "'x World_scheme \<Rightarrow> nat \<times> 'x World_scheme" where
  "ReturnOnInternalError w = new_Out \<lparr>Code = InternalError, Data = None, OutMetadata = []\<rparr> w"

definition WithCode :: "nat \<Rightarrow> int \<Rightarrow> 'x World_scheme \<Rightarrow> 'x World_scheme" where
  "WithCode p code w = w\<lparr>outs := (outs w)[p := (outs w ! p)\<lparr>Code := code\<rparr>]\<rparr>"

definition WithData :: "nat \<Rightarrow> bytes option \<Rightarrow> 'x World_scheme \<Rightarrow> 'x World_scheme" where
  "WithData p d w = w\<lparr>outs := (outs w)[p := (outs w ! p)\<lparr>Data := d\<rparr>]\<rparr>"

definition WithOut :: "nat option \<Rightarrow> 'x World_scheme \<Rightarrow> 'x World_scheme" where
  "WithOut out w = w\<lparr>fctx := (fctx w)\<lparr>OutPtr := out\<rparr>\<rparr>"

definition WithError :: "error option \<Rightarrow> 'x World_scheme \<Rightarrow> 'x World_scheme" where
  "WithError err w = w\<lparr>fctx := (fctx w)\<lparr>Error := err\<rparr>\<rparr>"

definition GetError :: "'x World_scheme \<Rightarrow> error option" where
  "GetError w = Error (fctx w)"

subsection \<open>Plugins, functions and the journal\<close>

text \<open>
  \<^verbatim>\<open>plugin.Plugin\<close> is an interface; its declaration is not among the sources, so the
  four methods the runtime manager calls are a parameter. A plugin value \<open>'p\<close> is what
  the interface holds (a pointer to an instance), \<open>'w\<close> is the store. A hook receives the
  context (in the store) and the plugin-state map, a Go map it may write to, and returns
  an error or nil. The model takes plugin values to be non-nil and their methods to
  return; \<^verbatim>\<open>Name\<close> only reads.
\<close>

record ('p, 'w) Plugin =
  PluginName :: "'p \<Rightarrow> string"
  Init :: "'p \<Rightarrow> 'w \<Rightarrow> 'p \<times> 'w"
  ExecPreHook :: "'p \<Rightarrow> (string \<times> 'p) list \<Rightarrow> 'w \<Rightarrow> error option \<times> (string \<times> 'p) list \<times> 'w"
  ExecPostHook :: "'p \<Rightarrow> (string \<times> 'p) list \<Rightarrow> 'w \<Rightarrow> error option \<times> (string \<times> 'p) list \<times> 'w"

text \<open>
  What a \<^verbatim>\<open>FunctionOut\<close> interface value holds: nothing (the nil interface), or a
  \<^verbatim>\<open>*Out\<close>, which may itself be nil.
\<close>

datatype FunctionOut = NilInterface | OutPointer "nat option"

text \<open>
  The \<^verbatim>\<open>interface{}\<close> given to \<^verbatim>\<open>FunctionRunWrapperWithHooks\<close>, by the three function
  types its type switch knows. Each function works on the store: it gets the context
  through it.
\<close>

datatype 'w func =
    HTTPFunction "string option \<Rightarrow> string option \<Rightarrow> 'w \<Rightarrow> error option \<times> 'w"
  | OpenFunction "bytes option \<Rightarrow> 'w \<Rightarrow> FunctionOut \<times> error option \<times> 'w"
  | CloudEventFunction "CloudEvent \<Rightarrow> 'w \<Rightarrow> error option \<times> 'w"
  | OtherFunction

text \<open>
  The journal records, in order, the calls the manager makes on plugins and on the
  function, and the lines it writes with \<^verbatim>\<open>klog\<close>. It is not part of the store: no
  plugin and no function reads it.
\<close>

datatype 'p entry =
    InitCall 'p
  | PreHookCall 'p
  | PostHookCall 'p
  | FunctionCall
  | WarnPrePhase string error
  | WarnPostPhase string error
  | LogError string

record 'p RuntimeManager =
  FuncOut :: nat
  prePlugins :: "'p list"
  postPlugins :: "'p list"
  pluginState :: "(string \<times> 'p) list"

subsection \<open>\<^verbatim>\<open>NewRuntimeManager\<close> and \<^verbatim>\<open>init\<close>\<close>

text \<open>
  One of the two loops of \<^verbatim>\<open>init\<close>: \<open>new\<close> is the list being built, \<open>st\<close> the
  plugin-state map.
\<close>

fun init_loop ::
  "('p, 'w) Plugin \<Rightarrow> 'p list \<Rightarrow> 'p list \<Rightarrow> (string \<times> 'p) list \<Rightarrow> 'w \<Rightarrow> 'p entry list
     \<Rightarrow> 'p list \<times> (string \<times> 'p) list \<times> 'w \<times> 'p entry list" where
  "init_loop P [] new st w j = (new, st, w, j)"
| "init_loop P (plg # rest) new st w j =
     (case map_of st (PluginName P plg) of
        None \<Rightarrow>
          (let (p, w1) = Init P plg w
           in init_loop P rest (new @ [p]) (AList.update (PluginName P plg) p st) w1
                (j @ [InitCall plg]))
      | Some existPlg \<Rightarrow> init_loop P rest (new @ [existPlg]) st w j)"

definition init ::
  "('p, 'w) Plugin \<Rightarrow> 'p RuntimeManager \<Rightarrow> 'w \<Rightarrow> 'p entry list
     \<Rightarrow> 'p RuntimeManager \<times> 'w \<times> 'p entry list" where
  "init P rm w j =
     (let (newPrePlugins, st1, w1, j1) = init_loop P (prePlugins rm) [] [] w j;
          (newPostPlugins, st2, w2, j2) = init_loop P (postPlugins rm) [] st1 w1 j1
      in (rm\<lparr>prePlugins := newPrePlugins, postPlugins := newPostPlugins,
              pluginState := st2\<rparr>, w2, j2))"

definition NewRuntimeManager ::
  "('p, 'x World_scheme) Plugin \<Rightarrow> 'p list \<Rightarrow> 'p list \<Rightarrow> 'x World_scheme \<Rightarrow> 'p entry list
     \<Rightarrow> 'p RuntimeManager \<times> 'x World_scheme \<times> 'p entry list" where
  "NewRuntimeManager P prePlugin postPlugin w j =
     (let (fo, w1) = (case OutPtr (fctx w) of Some p \<Rightarrow> (p, w) | None \<Rightarrow> NewFunctionOut w)
      in init P \<lparr>FuncOut = fo, prePlugins = prePlugin, postPlugins = postPlugin,
                 pluginState = []\<rparr> w1 j)"

subsection \<open>The hook loops and \<^verbatim>\<open>FunctionRunWrapperWithHooks\<close>\<close>

fun preHooks_loop ::
  "('p, 'w) Plugin \<Rightarrow> 'p list \<Rightarrow> (string \<times> 'p) list \<Rightarrow> 'w \<Rightarrow> 'p entry list
     \<Rightarrow> (string \<times> 'p) list \<times> 'w \<times> 'p entry list" where
  "preHooks_loop P [] st w j = (st, w, j)"
| "preHooks_loop P (plg # rest) st w j =
     (let (err, st1, w1) = ExecPreHook P plg st w
      in preHooks_loop P rest st1 w1
           (j @ [PreHookCall plg]
              @ (case err of None \<Rightarrow> [] | Some e \<Rightarrow> [WarnPrePhase (PluginName P plg) e])))"

fun postHooks_loop ::
  "('p, 'w) Plugin \<Rightarrow> 'p list \<Rightarrow> (string \<times> 'p) list \<Rightarrow> 'w \<Rightarrow> 'p entry list
     \<Rightarrow> (string \<times> 'p) list \<times> 'w \<times> 'p entry list" where
  "postHooks_loop P [] st w j = (st, w, j)"
| "postHooks_loop P (plg # rest) st w j =
     (let (err, st1, w1) = ExecPostHook P plg st w
      in postHooks_loop P rest st1 w1
           (j @ [PostHookCall plg]
              @ (case err of None \<Rightarrow> [] | Some e \<Rightarrow> [WarnPostPhase (PluginName P plg) e])))"

definition ProcessPreHooks ::
  "('p, 'w) Plugin \<Rightarrow> 'p RuntimeManager \<Rightarrow> 'w \<Rightarrow> 'p entry list
     \<Rightarrow> 'p RuntimeManager \<times> 'w \<times> 'p entry list" where
  "ProcessPreHooks P rm w j =
     (let (st, w1, j1) = preHooks_loop P (prePlugins rm) (pluginState rm) w j
      in (rm\<lparr>pluginState := st\<rparr>, w1, j1))"

definition ProcessPostHooks ::
  "('p, 'w) Plugin \<Rightarrow> 'p RuntimeManager \<Rightarrow> 'w \<Rightarrow> 'p entry list
     \<Rightarrow> 'p RuntimeManager \<times> 'w \<times> 'p entry list" where
  "ProcessPostHooks P rm w j =
     (let (st, w1, j1) = postHooks_loop P (postPlugins rm) (pluginState rm) w j
      in (rm\<lparr>pluginState := st\<rparr>, w1, j1))"

definition convertTopicEventToByte :: "topic_payload \<Rightarrow> bytes option" where
  "convertTopicEventToByte d =
     (case d of RawBytes b \<Rightarrow> b | Encodable b \<Rightarrow> Some b | Unencodable \<Rightarrow> None)"

text \<open>
  The type switch between the two hook loops. \<^verbatim>\<open>srMeta.ResponseWriter\<close> and the getters
  of the event metadata go through a pointer of the context and panic when it is nil;
  \<^verbatim>\<open>out.GetOut()\<close> panics when the function returned the nil interface. The result is
  the store and whether a function was called.
\<close>

definition callFunction ::
  "'x World_scheme func \<Rightarrow> 'x World_scheme \<Rightarrow> ('x World_scheme \<times> bool) go" where
  "callFunction fn w =
     (case fn of
        HTTPFunction f \<Rightarrow>
          (case SyncRequestMeta (fctx w) of
             None \<Rightarrow> Panic NilPointerDereference
           | Some srMeta \<Rightarrow>
               (let (err, w1) = f (ResponseWriter srMeta) (Request srMeta) w
                in Val (WithError err w1, True)))
      | OpenFunction f \<Rightarrow>
          (case EventMeta (fctx w) of
             None \<Rightarrow> Panic NilPointerDereference
           | Some em \<Rightarrow>
               (let input =
                      (case BindingEventMeta em of
                         Some be \<Rightarrow> BindingData be
                       | None \<Rightarrow>
                           (case TopicEventMeta em of
                              Some te \<Rightarrow> convertTopicEventToByte (TopicData te)
                            | None \<Rightarrow> None));
                    (out, err, w1) = f input w
                in case out of
                     NilInterface \<Rightarrow> Panic NilPointerDereference
                   | OutPointer p \<Rightarrow> Val (WithError err (WithOut p w1), True)))
      | CloudEventFunction f \<Rightarrow>
          (case EventMeta (fctx w) of
             None \<Rightarrow> Panic NilPointerDereference
           | Some em \<Rightarrow>
               (let ce = (case CloudEventMeta em of
                            Some c \<Rightarrow> c
                          | None \<Rightarrow> \<lparr>CloudEventID = [], CloudEventData = []\<rparr>);
                    (err, w1) = f ce w
                in Val (WithError err w1, True)))
      | OtherFunction \<Rightarrow> Val (w, False))"

definition FunctionRunWrapperWithHooks ::
  "('p, 'x World_scheme) Plugin \<Rightarrow> 'p RuntimeManager \<Rightarrow> 'x World_scheme func
     \<Rightarrow> 'x World_scheme \<Rightarrow> 'p entry list
     \<Rightarrow> ('p RuntimeManager \<times> 'x World_scheme \<times> 'p entry list) go" where
  "FunctionRunWrapperWithHooks P rm fn w j =
     (let (rm1, w1, j1) = ProcessPreHooks P rm w j
      in case callFunction fn w1 of
           Panic p \<Rightarrow> Panic p
         | Val (w2, called) \<Rightarrow>
             Val (ProcessPostHooks P rm1 w2 (j1 @ (if called then [FunctionCall] else []))))"

section \<open>The async runtime\<close>

subsection \<open>The Dapr client of the context\<close>

text \<open>
  \<open>testMode\<close> is whether the environment variable \<^verbatim>\<open>TEST_MODE\<close> is \<^verbatim>\<open>on\<close>;
  \<open>newClient\<close> is \<^verbatim>\<open>dapr.NewClientWithPort\<close> and \<open>port\<close> the package variable
  \<^verbatim>\<open>clientGRPCPort\<close>.
\<close>

definition InitDaprClientIfNil ::
  "bool \<Rightarrow> (string \<Rightarrow> error + Client) \<Rightarrow> string \<Rightarrow> Context \<Rightarrow> Context go" where
  "InitDaprClientIfNil testMode newClient port ctx =
     (if testMode then Val ctx
      else case daprClient ctx of
        Some c \<Rightarrow> Val ctx
      | None \<Rightarrow>
          (case newClient port of
             Inl e \<Rightarrow> Panic (PanicWith e)
           | Inr c \<Rightarrow> Val (ctx\<lparr>daprClient := Some c\<rparr>)))"

definition DestroyDaprClient :: "bool \<Rightarrow> Context \<Rightarrow> Context" where
  "DestroyDaprClient testMode ctx =
     (if testMode then ctx
      else case daprClient ctx of
        Some c \<Rightarrow> ctx\<lparr>daprClient := None\<rparr>
      | None \<Rightarrow> ctx)"

subsection \<open>The handlers\<close>

text \<open>
  \<^verbatim>\<open>strings.EqualFold\<close> on bytes: equal up to the case of the ASCII letters. (Under
  Unicode case folding the letters of \<^verbatim>\<open>true\<close> have no other form; a letter of
  \<^verbatim>\<open>false\<close> has one, and the handler returns the same for every string that is not
  \<^verbatim>\<open>true\<close>.)
\<close>

definition lower :: "char \<Rightarrow> char" where
  "lower c =
     (case map_of (zip ''ABCDEFGHIJKLMNOPQRSTUVWXYZ'' ''abcdefghijklmnopqrstuvwxyz'') c of
        Some l \<Rightarrow> l
      | None \<Rightarrow> c)"

definition EqualFold :: "string \<Rightarrow> string \<Rightarrow> bool" where
  "EqualFold s t = (map lower s = map lower t)"

text \<open>
  The closure given to \<^verbatim>\<open>AddBindingInvocationHandler\<close>, applied to an event. \<open>name\<close> is
  the value of the loop variable the closure captured.
\<close>

definition bindingHandler ::
  "('p, 'x World_scheme) Plugin \<Rightarrow> 'p list \<Rightarrow> 'p list \<Rightarrow> 'x World_scheme func \<Rightarrow> string
     \<Rightarrow> BindingEvent option \<Rightarrow> 'x World_scheme \<Rightarrow> 'p entry list
     \<Rightarrow> ((bytes option \<times> error option) \<times> 'x World_scheme \<times> 'p entry list) go" where
  "bindingHandler P prePlugins0 postPlugins0 fn name ev w j =
     (let (rm, w1, j1) = NewRuntimeManager P prePlugins0 postPlugins0 w j
      in case SetEventMeta (fctx w1) name (BindingEventPtr ev) of
           Panic p \<Rightarrow> Panic p
         | Val (ctx2, logged) \<Rightarrow>
             (case FunctionRunWrapperWithHooks P rm fn (w1\<lparr>fctx := ctx2\<rparr>)
                     (j1 @ map LogError logged) of
                Panic p \<Rightarrow> Panic p
              | Val (rm3, w3, j3) \<Rightarrow>
                  if Code (deref w3 (FuncOut rm3)) = Success
                  then Val ((Data (deref w3 (FuncOut rm3)), None), w3, j3)
                  else if Code (deref w3 (FuncOut rm3)) = InternalError
                  then Val ((None, GetError w3), w3, j3)
                  else Val ((None, None), w3, j3)))"

text \<open>The closure given to \<^verbatim>\<open>AddTopicEventHandler\<close>: it returns (retry, err).\<close>

definition topicHandler ::
  "('p, 'x World_scheme) Plugin \<Rightarrow> 'p list \<Rightarrow> 'p list \<Rightarrow> 'x World_scheme func \<Rightarrow> string
     \<Rightarrow> TopicEvent option \<Rightarrow> 'x World_scheme \<Rightarrow> 'p entry list
     \<Rightarrow> ((bool \<times> error option) \<times> 'x World_scheme \<times> 'p entry list) go" where
  "topicHandler P prePlugins0 postPlugins0 fn name ev w j =
     (let (rm, w1, j1) = NewRuntimeManager P prePlugins0 postPlugins0 w j
      in case SetEventMeta (fctx w1) name (TopicEventPtr ev) of
           Panic p \<Rightarrow> Panic p
         | Val (ctx2, logged) \<Rightarrow>
             (case FunctionRunWrapperWithHooks P rm fn (w1\<lparr>fctx := ctx2\<rparr>)
                     (j1 @ map LogError logged) of
                Panic p \<Rightarrow> Panic p
              | Val (rm3, w3, j3) \<Rightarrow>
                  if Code (deref w3 (FuncOut rm3)) = Success
                  then Val ((False, None), w3, j3)
                  else if Code (deref w3 (FuncOut rm3)) = InternalError
                  then
                    (let err = GetError w3
                     in case map_of (OutMetadata (deref w3 (FuncOut rm3))) ''retry'' of
                          Some retry \<Rightarrow>
                            if EqualFold retry ''true'' then Val ((True, err), w3, j3)
                            else if EqualFold retry ''false'' then Val ((False, err), w3, j3)
                            else Val ((False, err), w3, j3)
                        | None \<Rightarrow> Val ((False, err), w3, j3))
                  else Val ((False, None), w3, j3)))"

subsection \<open>\<^verbatim>\<open>RegisterOpenFunction\<close>\<close>

text \<open>
  The Dapr service the runtime holds is a library object: \<open>'sv\<close> is its state, and its
  two registration calls are a parameter. Each returns an error or nil. The closure a call
  passes is \<open>bindingHandler\<close> or \<open>topicHandler\<close> above.
\<close>

record 'sv Service =
  AddBindingInvocationHandler :: "string \<Rightarrow> 'sv \<Rightarrow> error option \<times> 'sv"
  AddTopicEventHandler :: "string \<Rightarrow> string \<Rightarrow> 'sv \<Rightarrow> error option \<times> 'sv"

text \<open>
  The loop over the inputs. It returns the error of the registration (nil when every
  input is registered), the inputs as the loop leaves them (a binding input has its
  \<^verbatim>\<open>Uri\<close> overwritten through the pointer), the service, and whether the error is one the
  service returned.
\<close>

fun registerInputs ::
  "'sv Service \<Rightarrow> (string \<times> Input option) list \<Rightarrow> 'sv
     \<Rightarrow> (error option \<times> (string \<times> Input option) list \<times> 'sv \<times> bool) go" where
  "registerInputs S [] sv = Val (None, [], sv, False)"
| "registerInputs S ((name, inp) # rest) sv =
     (case inp of
        None \<Rightarrow> Panic NilPointerDereference
      | Some input \<Rightarrow>
          if Type input = OpenFuncBinding then
            (let input1 = input\<lparr>Uri := Component input\<rparr>;
                 (funcErr, sv1) = AddBindingInvocationHandler S (Uri input1) sv
             in case funcErr of
                  Some e \<Rightarrow> Val (Some e, (name, Some input1) # rest, sv1, True)
                | None \<Rightarrow>
                    bind_go (registerInputs S rest sv1)
                      (\<lambda>(err, rest1, sv2, fromService).
                         Val (err, (name, Some input1) # rest1, sv2, fromService)))
          else if Type input = OpenFuncTopic then
            (let (funcErr, sv1) = AddTopicEventHandler S (Component input) (Uri input) sv
             in case funcErr of
                  Some e \<Rightarrow> Val (Some e, (name, Some input) # rest, sv1, True)
                | None \<Rightarrow>
                    bind_go (registerInputs S rest sv1)
                      (\<lambda>(err, rest1, sv2, fromService).
                         Val (err, (name, Some input) # rest1, sv2, fromService)))
          else Val (Some (InvalidInputTypeOnRegister (Type input)),
                    (name, Some input) # rest, sv, False))"

text \<open>
  The result is the error returned (nil on success), the context, the service and the
  lines written with \<^verbatim>\<open>klog.Errorf\<close>, each with the error formatted into it.
\<close>

datatype logline = FailedToAddHandler error | FailedToRegister error

definition RegisterOpenFunction ::
  "'sv Service \<Rightarrow> bool \<Rightarrow> (string \<Rightarrow> error + Client) \<Rightarrow> string \<Rightarrow> Context \<Rightarrow> 'sv
     \<Rightarrow> (error option \<times> Context \<times> 'sv \<times> logline list) go" where
  "RegisterOpenFunction S testMode newClient port ctx sv =
     bind_go (InitDaprClientIfNil testMode newClient port ctx)
       (\<lambda>ctx1.
          if HasInputs ctx1 then
            bind_go (registerInputs S (range_map (Inputs ctx1)) sv)
              (\<lambda>(err, ins, sv1, fromService).
                 (let ctx2 = ctx1\<lparr>Inputs := map_option (\<lambda>_. ins) (Inputs ctx1)\<rparr>
                  in case err of
                       Some funcErr \<Rightarrow>
                         if fromService
                         then Val (err, DestroyDaprClient testMode ctx2, sv1,
                                   [FailedToAddHandler funcErr])
                         else Val (err, ctx2, sv1, [])
                     | None \<Rightarrow> Val (err, ctx2, sv1, [])))
          else Val (Some NoInputsDefined, ctx1, sv, [FailedToRegister NoInputsDefined]))"

section \<open>Observations the statements use\<close>

text \<open>The number of \<^verbatim>\<open>Init()\<close> calls in a journal made on a plugin of a given name.\<close>

definition initCalls :: "('p, 'w) Plugin \<Rightarrow> string \<Rightarrow> 'p entry list \<Rightarrow> nat" where
  "initCalls P n j =
     length (filter (\<lambda>e. case e of InitCall p \<Rightarrow> PluginName P p = n | _ \<Rightarrow> False) j)"


fun is_warning :: "'p entry \<Rightarrow> bool" where
  "is_warning (WarnPrePhase n e) = True"
| "is_warning (WarnPostPhase n e) = True"
| "is_warning (InitCall p) = False"
| "is_warning (PreHookCall p) = False"
| "is_warning (PostHookCall p) = False"
| "is_warning FunctionCall = False"
| "is_warning (LogError m) = False"

text \<open>A journal without the warnings of the two hook loops.\<close>

definition calls :: "'p entry list \<Rightarrow> 'p entry list" where
  "calls j = filter (\<lambda>e. \<not> is_warning e) j"






text \<open>What a handler returns to the service, and the store it leaves.\<close>

definition returned :: "('a \<times> 'w \<times> 'j) go \<Rightarrow> 'a go" where
  "returned r = (case r of Panic p \<Rightarrow> Panic p | Val (x, w, j) \<Rightarrow> Val x)"

definition store_after :: "('a \<times> 'w \<times> 'j) go \<Rightarrow> 'w \<Rightarrow> 'w" where
  "store_after r w0 = (case r of Panic p \<Rightarrow> w0 | Val (x, w, j) \<Rightarrow> w)"

section \<open>Concrete inputs\<close>

text \<open>
  The inputs at which the theorems below are evaluated. \<open>growslice\<close> doubles the capacity,
  as the Go runtime does for short slices. \<open>decodeTo cfg\<close> stands for the JSON decoder on a
  document that decodes to \<open>cfg\<close>. A slice the decoder builds for one to four elements
  has capacity 4.
\<close>

definition growslice :: "nat \<Rightarrow> nat \<Rightarrow> nat" where
  "growslice oldcap needed = (if 2 * oldcap < needed then needed else 2 * oldcap)"

definition decodeTo :: "Context \<Rightarrow> string \<Rightarrow> Context \<Rightarrow> error + Context" where
  "decodeTo cfg data ctx = Inr cfg"

definition selfHostEnv :: Env where
  "selfHostEnv = \<lparr>FUNC_CONTEXT = ''{...}'', CONTEXT_MODE = ''self-host'', POD_NAME = [],
                  POD_NAMESPACE = [], DAPR_GRPC_PORT = []\<rparr>"

definition tracingConfig :: Context where
  "tracingConfig =
     newContext\<lparr>Name := ''function-demo'', Version := ''v1.0.0'', Runtime := Knative,
                Port := ''8080'',
                PrePlugins := Slice [''plugin-a''] [[], [], []],
                PostPlugins := Slice [''plugin-a''] [[], [], []],
                PluginsTracing := Some \<lparr>Enable = True,
                   Provider = Some \<lparr>ProviderName = ''skywalking'', OapServer = ''oap:11800''\<rparr>,
                   Tags = None, Baggage = None\<rparr>\<rparr>"

text \<open>The same configuration without a post-plugin list: the decoder leaves the nil slice.\<close>

definition tracingNoPostConfig :: Context where
  "tracingNoPostConfig = tracingConfig\<lparr>PostPlugins := NilSlice\<rparr>"

definition invalidTypeConfig :: Context where
  "invalidTypeConfig =
     newContext\<lparr>Name := ''function-demo'', Version := ''v1.0.0'', Runtime := Async,
                Port := ''8080'',
                Inputs := Some [(''cron'', Some \<lparr>Uri = ''cron_input'', Component = ''cron'',
                                               Type = ''http'', Metadata = []\<rparr>)],
                Outputs := Some [(''sink'', Some \<lparr>Uri = ''sink'', Component = ''sink'',
                                                Type = ''queue'', Metadata = [],
                                                Operation = ''create''\<rparr>)]\<rparr>"

definition echoClient :: Client where
  "echoClient =
     \<lparr>PublishEvent = (\<lambda>component topic data. None),
      InvokeBinding = (\<lambda>req. (Some \<lparr>BindingData = ReqData req, BindingMetadata = []\<rparr>, None))\<rparr>"

definition demoContext :: Context where
  "demoContext =
     newContext\<lparr>Name := ''function-demo'', Version := ''v1.0.0'', Runtime := Async,
                Port := ''8080'',
                Inputs := Some [(''sub'', Some \<lparr>Uri = ''topic1'', Component = ''msg'',
                                              Type = ''pubsub'', Metadata = []\<rparr>)],
                EventMeta := Some emptyEventMetadata,
                SyncRequestMeta := Some emptySyncRequestMetadata,
                mode := SelfHostMode\<rparr>"

definition outputContext :: Context where
  "outputContext =
     demoContext\<lparr>Outputs := Some [(''target'', Some \<lparr>Uri = ''orders'', Component = ''kafka'',
                                     Type = ''bindings'', Metadata = [],
                                     Operation = ''create''\<rparr>)],
                 daprClient := Some echoClient\<rparr>"

text \<open>
  A store with plugin instances: \<open>insts\<close> holds the \<^verbatim>\<open>stateA\<close> of each instance, at its
  address, and \<open>seen\<close> what the post-hooks read. A plugin value is the name of its type and
  the address of the instance. As in \<^verbatim>\<open>plugin-a\<close>, a pre-hook sets \<^verbatim>\<open>stateA\<close> to 1, and the
  post-hook of \<^verbatim>\<open>plugin-a\<close> fails when the map has no \<^verbatim>\<open>plugin-b\<close>; the pre-hook of
  \<^verbatim>\<open>plugin-c\<close> always fails. \<^verbatim>\<open>Init\<close> makes a new instance.
\<close>

record DemoWorld = World +
  insts :: "int list"
  seen :: "int list"

definition demoPlugin :: "(string \<times> nat, DemoWorld) Plugin" where
  "demoPlugin =
     \<lparr>PluginName = fst,
      Init = (\<lambda>plg w. ((fst plg, length (insts w)), w\<lparr>insts := insts w @ [0]\<rparr>)),
      ExecPreHook = (\<lambda>plg st w.
         if fst plg = ''plugin-c'' then (Some (External ''pre hook failed''), st, w)
         else (None, st, w\<lparr>insts := (insts w)[snd plg := 1]\<rparr>)),
      ExecPostHook = (\<lambda>plg st w.
         if fst plg = ''plugin-a'' then
           (case map_of st ''plugin-b'' of
              Some b \<Rightarrow> (None, st, w\<lparr>seen := seen w @ [insts w ! snd plg + insts w ! snd b]\<rparr>)
            | None \<Rightarrow> (Some (External ''failed to get StateC from plugin plugin-b''), st, w))
         else (None, st, w\<lparr>seen := seen w @ [insts w ! snd plg]\<rparr>))\<rparr>"

definition demoWorld :: DemoWorld where
  "demoWorld = \<lparr>fctx = demoContext, outs = [], insts = [0, 0, 0], seen = []\<rparr>"

definition demoManager :: "(string \<times> nat) RuntimeManager" where
  "demoManager =
     \<lparr>FuncOut = 0, prePlugins = [(''plugin-a'', 0), (''plugin-b'', 1)],
      postPlugins = [(''plugin-b'', 1), (''plugin-a'', 0)], pluginState = []\<rparr>"



text \<open>
  Two user functions: one returns an \<^verbatim>\<open>Out\<close> with the code \<^verbatim>\<open>InternalError\<close> and the
  metadata \<^verbatim>\<open>retry: true\<close>, and an error; the other is the function of the samples,
  \<^verbatim>\<open>ctx.ReturnOnSuccess().WithData([]byte("hello there")), nil\<close>.
\<close>

definition failingFunction ::
  "bytes option \<Rightarrow> DemoWorld \<Rightarrow> FunctionOut \<times> error option \<times> DemoWorld" where
  "failingFunction input w =
     (let (p, w1) = new_Out \<lparr>Code = InternalError, Data = None,
                             OutMetadata = [(''retry'', ''true'')]\<rparr> w
      in (OutPointer (Some p), Some (External ''boom''), w1))"

definition helloFunction ::
  "bytes option \<Rightarrow> DemoWorld \<Rightarrow> FunctionOut \<times> error option \<times> DemoWorld" where
  "helloFunction input w =
     (let (p, w1) = ReturnOnSuccess w
      in (OutPointer (Some p), None, WithData p (Some ''hello there'') w1))"

definition demoEvent :: TopicEvent where
  "demoEvent = \<lparr>TopicID = ''1'', TopicData = RawBytes (Some ''payload'')\<rparr>"

text \<open>
  A service that keeps the names it was given, and rejects an empty one as the Dapr
  service does.
\<close>

definition listService :: "string list Service" where
  "listService =
     \<lparr>AddBindingInvocationHandler = (\<lambda>name sv.
         if name = [] then (Some (External ''binding name required''), sv)
         else (None, sv @ [name])),
      AddTopicEventHandler = (\<lambda>pubsub topic sv.
         if topic = [] then (Some (External ''topic name required''), sv)
         else (None, sv @ [topic]))\<rparr>"

definition noClient :: "string \<Rightarrow> error + Client" where
  "noClient port = Inl (External ''error creating connection'')"

section \<open>Properties of the context package\<close>

subsection \<open>The guards\<close>

lemma HasInputs_iff: "HasInputs ctx \<longleftrightarrow> Inputs ctx \<noteq> Some []"
  by (simp add: HasInputs_def DeepEqual_empty_def split: option.splits)

lemma HasOutputs_iff: "HasOutputs ctx \<longleftrightarrow> Outputs ctx \<noteq> Some []"
  by (simp add: HasOutputs_def DeepEqual_empty_def split: option.splits)

text \<open>
  \<^verbatim>\<open>Send\<close> returns \<^verbatim>\<open>no output\<close> when the guard holds; when it does not, the map is
  empty and the lookup fails. The calls on the client are never reached.
\<close>

lemma Send_never_dispatches:
  "Send ctx n d = Val (None, Some (if HasOutputs ctx then NoOutput else OutputNotFound n))"
  by (auto simp: Send_def HasOutputs_iff map_index_def)

lemma registerInputs_Nil: "registerInputs S (range_map None) sv = Val (None, [], sv, False)"
  by (simp add: range_map_def)

lemma RegisterOpenFunction_nil_inputs:
  assumes "InitDaprClientIfNil testMode newClient port ctx = Val ctx1" and "Inputs ctx = None"
  shows "RegisterOpenFunction S testMode newClient port ctx sv = Val (None, ctx1, sv, [])"
proof -
  have i: "Inputs ctx1 = None"
    using assms by (auto simp: InitDaprClientIfNil_def split: if_splits option.splits sum.splits)
  then have "ctx1\<lparr>Inputs := None\<rparr> = ctx1" by simp
  with assms(1) i show ?thesis
    by (simp add: RegisterOpenFunction_def bind_go_def HasInputs_iff registerInputs_Nil)
qed

lemma RegisterOpenFunction_empty_inputs:
  assumes "InitDaprClientIfNil testMode newClient port ctx = Val ctx1" and "Inputs ctx = Some []"
  shows "RegisterOpenFunction S testMode newClient port ctx sv
           = Val (Some NoInputsDefined, ctx1, sv, [FailedToRegister NoInputsDefined])"
proof -
  have "Inputs ctx1 = Some []"
    using assms by (auto simp: InitDaprClientIfNil_def split: if_splits option.splits sum.splits)
  with assms(1) show ?thesis
    by (simp add: RegisterOpenFunction_def bind_go_def HasInputs_iff)
qed

text \<open>
  Claim C10. \<^verbatim>\<open>HasInputs\<close> and \<^verbatim>\<open>HasOutputs\<close> return false exactly when the map is not
  nil and empty. For a nil map they return true, and the callers treat the context as one
  that has inputs or outputs: \<^verbatim>\<open>Send\<close> takes the branch of its guard (it returns
  \<^verbatim>\<open>no output\<close>), the validation blocks of \<^verbatim>\<open>parseContext\<close> take the branch for a
  context with inputs or outputs (they check nothing), and \<^verbatim>\<open>RegisterOpenFunction\<close>
  enters the registration loop and returns nil instead of the error for a function
  without inputs.
\<close>

theorem HasInputs_HasOutputs_nil_or_empty:
  "(\<not> HasInputs ctx \<longleftrightarrow> Inputs ctx = Some [])
   \<and> (\<not> HasOutputs ctx \<longleftrightarrow> Outputs ctx = Some [])
   \<and> (Inputs ctx = None \<longrightarrow> HasInputs ctx)
   \<and> (Outputs ctx = None \<longrightarrow> HasOutputs ctx \<and> Send ctx n d = Val (None, Some NoOutput))
   \<and> (Inputs ctx = None \<longrightarrow> validateInputTypes ctx = Val (Inr ()))
   \<and> (Outputs ctx = None \<longrightarrow> validateOutputTypes ctx = Val (Inr ()))
   \<and> (Inputs ctx = None \<longrightarrow>
        InitDaprClientIfNil testMode newClient port ctx = Val ctx1 \<longrightarrow>
        RegisterOpenFunction S testMode newClient port ctx sv = Val (None, ctx1, sv, []))"
  using RegisterOpenFunction_nil_inputs [of testMode newClient port ctx ctx1 S sv]
  by (auto simp: HasInputs_iff HasOutputs_iff Send_never_dispatches validateInputTypes_def
      validateOutputTypes_def)

theorem HasInputs_HasOutputs_nil_or_empty_witness:
  "Inputs (newContext\<lparr>Inputs := None, Outputs := None\<rparr>) = None
   \<and> Outputs (newContext\<lparr>Inputs := None, Outputs := None\<rparr>) = None
   \<and> HasInputs (newContext\<lparr>Inputs := None, Outputs := None\<rparr>)
   \<and> HasOutputs (newContext\<lparr>Inputs := None, Outputs := None\<rparr>)
   \<and> Send (newContext\<lparr>Inputs := None, Outputs := None\<rparr>) ''target'' (Some ''hello'')
        = Val (None, Some NoOutput)
   \<and> validateInputTypes (newContext\<lparr>Inputs := None, Outputs := None\<rparr>) = Val (Inr ())
   \<and> validateOutputTypes (newContext\<lparr>Inputs := None, Outputs := None\<rparr>) = Val (Inr ())
   \<and> RegisterOpenFunction listService True noClient ''50001''
        (newContext\<lparr>Inputs := None, Outputs := None\<rparr>) []
        = Val (None, newContext\<lparr>Inputs := None, Outputs := None\<rparr>, [], [])
   \<and> \<not> HasInputs newContext \<and> Inputs newContext = Some []"
  using HasInputs_HasOutputs_nil_or_empty
          [of "newContext\<lparr>Inputs := None, Outputs := None\<rparr>" "''target''" "Some ''hello''"
              True noClient "''50001''" "newContext\<lparr>Inputs := None, Outputs := None\<rparr>"
              listService "[]"]
        HasInputs_HasOutputs_nil_or_empty [of newContext]
  by (simp add: newContext_def InitDaprClientIfNil_def)

subsection \<open>\<^verbatim>\<open>Send\<close>\<close>

text \<open>
  Claim C1, at a context that declares the output \<^verbatim>\<open>target\<close> (a binding) and has a
  client: \<^verbatim>\<open>Send\<close> on that name returns the error \<^verbatim>\<open>no output\<close>, where the claim has it
  invoke the binding and return the response. The guard on \<^verbatim>\<open>HasOutputs\<close> is inverted.
\<close>

theorem Send_declared_output_no_output:
  "Send outputContext ''target'' (Some ''hello'') = Val (None, Some NoOutput)"
  by (simp add: Send_never_dispatches HasOutputs_iff outputContext_def)

subsection \<open>\<^verbatim>\<open>SetEventMeta\<close>\<close>

text \<open>
  Claim C9, as stated, fails: for an event that is none of the three kinds the call
  changes the event metadata, since it stores the input name after the \<^verbatim>\<open>switch\<close>.
\<close>

theorem SetEventMeta_unrecognized_counterexample:
  "SetEventMeta demoContext ''sub'' (OtherEvent ''string'')
     = Val (demoContext\<lparr>EventMeta := Some (emptyEventMetadata\<lparr>InputName := ''sub''\<rparr>)\<rparr>,
            [''failed to resolve event type: %vstring''])
   \<and> EventMeta (demoContext\<lparr>EventMeta := Some (emptyEventMetadata\<lparr>InputName := ''sub''\<rparr>)\<rparr>)
       \<noteq> EventMeta demoContext"
  by (simp add: SetEventMeta_def demoContext_def emptyEventMetadata_def)

text \<open>
  Claim C9, amended. For a context whose event metadata is allocated and an event that is
  none of the three kinds, \<^verbatim>\<open>SetEventMeta\<close> returns, writes one line with \<^verbatim>\<open>klog.Error\<close>,
  leaves the binding, topic and cloud event of the metadata and every other field of the
  context as they were, and sets the input name of the metadata to the name given.
\<close>

theorem SetEventMeta_unrecognized:
  "EventMeta ctx = Some em \<Longrightarrow>
     SetEventMeta ctx inputName (OtherEvent t)
       = Val (ctx\<lparr>EventMeta := Some (em\<lparr>InputName := inputName\<rparr>)\<rparr>,
              [''failed to resolve event type: %v'' @ t])"
  by (simp add: SetEventMeta_def)

theorem SetEventMeta_unrecognized_witness:
  "EventMeta demoContext = Some emptyEventMetadata
   \<and> SetEventMeta demoContext ''sub'' (OtherEvent ''string'')
       = Val (demoContext\<lparr>EventMeta := Some (emptyEventMetadata\<lparr>InputName := ''sub''\<rparr>)\<rparr>,
              [''failed to resolve event type: %v'' @ ''string''])"
proof -
  have h: "EventMeta demoContext = Some emptyEventMetadata"
    by (simp add: demoContext_def)
  show ?thesis
    using h SetEventMeta_unrecognized [OF h, of "''sub''" "''string''"] by simp
qed

subsection \<open>The tracing plugin in the post-plugin list\<close>

lemma hasPlugin_list_iff: "hasPlugin_list xs t \<longleftrightarrow> t \<in> set xs"
  by (induction xs) auto

lemma slice_to_1:
  assumes "0 < cap s"
  shows "slice_to s (Suc 0)
           = Val (Slice (take (Suc 0) (elems s @ spare s)) (drop (Suc 0) (elems s @ spare s)))"
proof (cases s)
  case NilSlice
  with assms show ?thesis by (simp add: cap_def)
next
  case (Slice xs sp)
  with assms have "Suc 0 \<le> length xs + length sp"
    by (cases xs; cases sp) (simp_all add: cap_def)
  with Slice show ?thesis by (simp add: slice_to_def cap_def)
qed

lemma elems_append_go: "elems (append_go grow s vs) = elems s @ vs"
  by (simp add: append_go_def)

lemma registerPost_absent:
  assumes "0 < cap plugins" "target \<notin> set (elems plugins)"
  shows "\<exists>r. registerTracingPluginIntoPostPlugins grow plugins target = Val r
             \<and> elems r = target # elems plugins"
proof -
  let ?all = "elems plugins @ spare plugins"
  let ?front = "Slice (take (Suc 0) ?all) (drop (Suc 0) ?all)"
  have all: "?all \<noteq> []" using assms(1) by (auto simp: cap_def)
  have front: "slice_to plugins (Suc 0) = Val ?front" using assms(1) by (rule slice_to_1)
  have e: "elems (append_go grow ?front (elems plugins)) = take (Suc 0) ?all @ elems plugins"
    by (simp add: elems_append_go del: take_append drop_append)
  have t: "take (Suc 0) ?all \<noteq> []" using all by (cases ?all) auto
  have l: "0 < len (append_go grow ?front (elems plugins))"
    unfolding len_def e using t by simp
  have "(take (Suc 0) ?all @ elems plugins)[0 := target] = target # elems plugins"
    using all by (cases ?all) auto
  with e have "(elems (append_go grow ?front (elems plugins)))[0 := target]
                = target # elems plugins" by simp
  then show ?thesis
    using assms(2) l
    by (simp add: registerTracingPluginIntoPostPlugins_def hasPlugin_def hasPlugin_list_iff
        bind_go_def set_index_def front del: take_append drop_append)
qed

lemma registerPost_present:
  "target \<in> set (elems plugins) \<Longrightarrow>
     registerTracingPluginIntoPostPlugins grow plugins target = Val plugins"
  by (simp add: registerTracingPluginIntoPostPlugins_def hasPlugin_def hasPlugin_list_iff)

text \<open>On a slice of capacity 0 (the nil slice, or what the decoder makes of \<^verbatim>\<open>[]\<close>) the
  expression \<^verbatim>\<open>plugins[:1]\<close> panics.\<close>

lemma registerPost_empty_panics:
  "cap plugins = 0 \<Longrightarrow>
     registerTracingPluginIntoPostPlugins grow plugins target
       = Panic (SliceBoundsOutOfRange 1 0)"
  by (cases plugins)
     (auto simp: registerTracingPluginIntoPostPlugins_def hasPlugin_def cap_def slice_to_def
        bind_go_def)

text \<open>
  On a slice of capacity at least 1 the function returns: the name followed by the list
  when the name is not in it, and the list as it is when the name is in it, wherever it
  is (the guard \<^verbatim>\<open>!exist\<close> makes it insert-if-absent; it moves nothing). Applied to its
  result it returns the result.
\<close>

lemma registerPost_inserts:
  assumes "0 < cap plugins"
  shows "\<exists>r. registerTracingPluginIntoPostPlugins grow plugins target = Val r
           \<and> elems r = (if target \<in> set (elems plugins) then elems plugins
                         else target # elems plugins)
           \<and> (distinct (elems plugins) \<longrightarrow> distinct (elems r))
           \<and> registerTracingPluginIntoPostPlugins grow r target = Val r"
proof (cases "target \<in> set (elems plugins)")
  case True
  then show ?thesis by (simp add: registerPost_present)
next
  case False
  from registerPost_absent [OF assms False, of grow] obtain r where
    r: "registerTracingPluginIntoPostPlugins grow plugins target = Val r"
       "elems r = target # elems plugins" by blast
  then have "registerTracingPluginIntoPostPlugins grow r target = Val r"
    by (simp add: registerPost_present)
  with r False show ?thesis by simp
qed

subsection \<open>\<^verbatim>\<open>parseContext\<close>\<close>

text \<open>
  Each validation loop runs only when its guard says that the map is empty, and then it
  has nothing to visit.
\<close>

lemma input_validation_never_fails: "validateInputTypes ctx = Val (Inr ())"
  by (simp add: validateInputTypes_def HasInputs_iff range_map_def)

lemma output_validation_never_fails: "validateOutputTypes ctx = Val (Inr ())"
  by (simp add: validateOutputTypes_def HasOutputs_iff range_map_def)

lemma parseContext_after_decode:
  assumes "FUNC_CONTEXT env \<noteq> []" "unmarshal (FUNC_CONTEXT env) newContext = Inr cfg"
    "Runtime cfg = Async \<or> Runtime cfg = Knative"
  shows "parseContext unmarshal grow env =
     bind_err (parseContext_pod env
                 (cfg\<lparr>EventMeta := Some emptyEventMetadata,
                       SyncRequestMeta := Some emptySyncRequestMetadata,
                       mode := (if CONTEXT_MODE env = SelfHostMode
                                then SelfHostMode else KubernetesMode)\<rparr>))
       (\<lambda>ctx4. bind_err (parseContext_tracing grow ctx4)
       (\<lambda>ctx5. bind_err (parseContext_port ctx5)
       (\<lambda>ctx6. Val (Inr (ctx6, if DAPR_GRPC_PORT env = [] then daprSidecarGRPCPort
                                else DAPR_GRPC_PORT env)))))"
  using assms
  by (simp add: parseContext_def Let_def input_validation_never_fails
      output_validation_never_fails bind_err_def)

text \<open>
  \<^verbatim>\<open>parseContext\<close> itself never makes an invalid-type error: when it returns one, the
  decoder made it.
\<close>

lemma parseContext_no_type_error:
  assumes "parseContext unmarshal grow env = Val (Inl e)"
    and "e = InvalidInputType n t \<or> e = InvalidOutputType n t"
  shows "unmarshal (FUNC_CONTEXT env) newContext = Inl e"
  using assms
  by (auto simp: parseContext_def Let_def input_validation_never_fails
      output_validation_never_fails bind_err_def parseContext_pod_def
      parseContext_tracing_def parseContext_port_def
      split: if_splits sum.splits go.splits option.splits)

text \<open>
  Claim C4, at a configuration with an input of type \<^verbatim>\<open>http\<close> and an output of type
  \<^verbatim>\<open>queue\<close>: \<^verbatim>\<open>parseContext\<close> returns the context and no error, where the claim has it
  fail with an invalid-type error. The validation loops are guarded by \<^verbatim>\<open>!ctx.HasInputs()\<close>
  and \<^verbatim>\<open>!ctx.HasOutputs()\<close>, so they run only on empty maps.
\<close>

theorem parseContext_accepts_invalid_types:
  "parseContext (decodeTo invalidTypeConfig) growslice selfHostEnv
     = Val (Inr (invalidTypeConfig\<lparr>EventMeta := Some emptyEventMetadata,
                   SyncRequestMeta := Some emptySyncRequestMetadata,
                   mode := SelfHostMode\<rparr>, ''50001''))"
  apply (subst parseContext_after_decode [where cfg = invalidTypeConfig])
     apply (simp_all add: selfHostEnv_def decodeTo_def)
   apply (simp add: invalidTypeConfig_def newContext_def Async_def)
  apply (simp add: bind_err_def parseContext_pod_def SelfHostMode_def KubernetesMode_def
      parseContext_tracing_def invalidTypeConfig_def newContext_def parseContext_port_def
      Atoi_def is_digit_def digits_value_def daprSidecarGRPCPort_def)
  done

subsection \<open>The tracing plugin in the pre-plugin list\<close>

lemma elems_registerPre:
  "elems (registerTracingPluginIntoPrePlugins grow plugins target)
     = (if target \<in> set (elems plugins) then elems plugins else elems plugins @ [target])"
  by (cases plugins)
     (simp_all add: registerTracingPluginIntoPrePlugins_def hasPlugin_def hasPlugin_list_iff
        elems_append_go Let_def)

lemma parseContext_pod_keeps:
  "parseContext_pod env c = Val (Inr c') \<Longrightarrow>
     PrePlugins c' = PrePlugins c \<and> PluginsTracing c' = PluginsTracing c"
  by (auto simp: parseContext_pod_def split: if_splits)

lemma parseContext_port_keeps:
  "parseContext_port c = Val (Inr c') \<Longrightarrow> PrePlugins c' = PrePlugins c"
  by (auto simp: parseContext_port_def split: if_splits sum.splits)

lemma parseContext_tracing_PrePlugins:
  assumes "parseContext_tracing grow c = Val (Inr c')"
    and "PluginsTracing c = Some pt" "Enable pt" "Provider pt = Some pr"
  shows "PrePlugins c'
           = registerTracingPluginIntoPrePlugins grow (PrePlugins c) (ProviderName pr)"
  using assms
  by (auto simp: parseContext_tracing_def Let_def split: if_splits go.splits option.splits)

lemma bind_err_Val_Inr:
  "bind_err m f = Val (Inr y) \<Longrightarrow> \<exists>x. m = Val (Inr x) \<and> f x = Val (Inr y)"
  by (auto simp: bind_err_def split: go.splits sum.splits)

lemma parseContext_tracingConfig:
  "parseContext (decodeTo tracingConfig) growslice selfHostEnv
     = Val (Inr (tracingConfig\<lparr>EventMeta := Some emptyEventMetadata,
                   SyncRequestMeta := Some emptySyncRequestMetadata,
                   mode := SelfHostMode,
                   PrePlugins := Slice [''plugin-a'', ''skywalking''] [[], []],
                   PostPlugins := Slice [''skywalking'', ''plugin-a''] [[], []]\<rparr>, ''50001''))"
  apply (subst parseContext_after_decode [where cfg = tracingConfig])
     apply (simp_all add: selfHostEnv_def decodeTo_def)
   apply (simp add: tracingConfig_def newContext_def Knative_def)
  apply (simp add: bind_err_def parseContext_pod_def SelfHostMode_def KubernetesMode_def
      parseContext_tracing_def tracingConfig_def newContext_def parseContext_port_def
      Atoi_def is_digit_def digits_value_def daprSidecarGRPCPort_def
      TracingProviderSkywalking_def registerTracingPluginIntoPrePlugins_def
      registerTracingPluginIntoPostPlugins_def hasPlugin_def append_go_def len_def cap_def
      slice_to_def set_index_def bind_go_def Let_def)
  done

text \<open>
  Claim C5, as stated, fails: with the pre-plugin list \<^verbatim>\<open>[plugin-a]\<close> and tracing enabled
  for \<^verbatim>\<open>skywalking\<close>, parsing returns the pre-plugin list \<^verbatim>\<open>[plugin-a, skywalking]\<close>, whose
  head is not the provider's name.
\<close>

theorem parseContext_tracing_pre_plugins_counterexample:
  "parseContext (decodeTo tracingConfig) growslice selfHostEnv
     = Val (Inr (tracingConfig\<lparr>EventMeta := Some emptyEventMetadata,
                   SyncRequestMeta := Some emptySyncRequestMetadata,
                   mode := SelfHostMode,
                   PrePlugins := Slice [''plugin-a'', ''skywalking''] [[], []],
                   PostPlugins := Slice [''skywalking'', ''plugin-a''] [[], []]\<rparr>, ''50001''))
   \<and> hd [''plugin-a'', ''skywalking''] \<noteq> ''skywalking''
   \<and> \<not> hasPlugin (PrePlugins tracingConfig) ''skywalking''"
  using parseContext_tracingConfig
  by (simp add: hasPlugin_def tracingConfig_def newContext_def)

text \<open>
  Claim C5, amended. When tracing is enabled with a provider and parsing returns a
  context, the pre-plugin list of that context is the configured list followed by the
  provider's name (the name is the last element) if the name is not in the configured
  list, and the configured list if it is.
\<close>

theorem parseContext_tracing_pre_plugins:
  assumes ok: "parseContext unmarshal grow env = Val (Inr (ctx', port))"
    and cfg: "unmarshal (FUNC_CONTEXT env) newContext = Inr cfg"
    and tr: "PluginsTracing cfg = Some pt" "Enable pt" "Provider pt = Some pr"
  shows "elems (PrePlugins ctx')
           = (if ProviderName pr \<in> set (elems (PrePlugins cfg)) then elems (PrePlugins cfg)
              else elems (PrePlugins cfg) @ [ProviderName pr])"
proof -
  have ne: "FUNC_CONTEXT env \<noteq> []"
    using ok by (auto simp: parseContext_def split: if_splits)
  have rt: "Runtime cfg = Async \<or> Runtime cfg = Knative"
    using ok ne cfg by (auto simp: parseContext_def split: if_splits)
  let ?c3 = "cfg\<lparr>EventMeta := Some emptyEventMetadata,
                  SyncRequestMeta := Some emptySyncRequestMetadata,
                  mode := (if CONTEXT_MODE env = SelfHostMode
                           then SelfHostMode else KubernetesMode)\<rparr>"
  from ok obtain c4 c5 c6 where
    c4: "parseContext_pod env ?c3 = Val (Inr c4)" and
    c5: "parseContext_tracing grow c4 = Val (Inr c5)" and
    c6: "parseContext_port c5 = Val (Inr c6)" and
    r: "ctx' = c6"
    unfolding parseContext_after_decode [where unmarshal = unmarshal and cfg = cfg, OF ne cfg rt]
    by (fastforce dest!: bind_err_Val_Inr)
  from parseContext_pod_keeps [OF c4]
  have p4: "PrePlugins c4 = PrePlugins cfg" "PluginsTracing c4 = Some pt"
    using tr by simp_all
  from parseContext_tracing_PrePlugins [OF c5 p4(2) tr(2,3)]
  have "PrePlugins c5
          = registerTracingPluginIntoPrePlugins grow (PrePlugins cfg) (ProviderName pr)"
    using p4 by simp
  with parseContext_port_keeps [OF c6] r show ?thesis
    by (simp add: elems_registerPre)
qed

theorem parseContext_tracing_pre_plugins_witness:
  "decodeTo tracingConfig (FUNC_CONTEXT selfHostEnv) newContext = Inr tracingConfig
   \<and> \<not> hasPlugin (PrePlugins tracingConfig) ''skywalking''
   \<and> elems (Slice [''plugin-a'', ''skywalking''] [[], []])
       = elems (PrePlugins tracingConfig) @ [''skywalking'']"
  using parseContext_tracing_pre_plugins [OF parseContext_tracingConfig,
      of tracingConfig
         "\<lparr>Enable = True,
           Provider = Some \<lparr>ProviderName = ''skywalking'', OapServer = ''oap:11800''\<rparr>,
           Tags = None, Baggage = None\<rparr>"
         "\<lparr>ProviderName = ''skywalking'', OapServer = ''oap:11800''\<rparr>"]
  by (simp add: decodeTo_def tracingConfig_def newContext_def hasPlugin_def)

subsection \<open>The tracing plugin in an empty post-plugin list\<close>

lemma parseContext_tracingNoPostConfig:
  "parseContext (decodeTo tracingNoPostConfig) growslice selfHostEnv
     = Panic (SliceBoundsOutOfRange 1 0)"
  apply (subst parseContext_after_decode [where cfg = tracingNoPostConfig])
     apply (simp_all add: selfHostEnv_def decodeTo_def)
   apply (simp add: tracingNoPostConfig_def tracingConfig_def newContext_def Knative_def)
  apply (simp add: bind_err_def parseContext_pod_def SelfHostMode_def KubernetesMode_def
      parseContext_tracing_def tracingNoPostConfig_def tracingConfig_def newContext_def
      TracingProviderSkywalking_def registerPost_empty_panics cap_def Let_def)
  done

text \<open>
  Claim C3, at the empty list. On the nil list, and on the empty list of capacity 0, the
  injection does not return: \<^verbatim>\<open>plugins[:1]\<close> panics with a slice bound out of range,
  where the claim has a total operation that returns the list with the name at index 0.
  \<^verbatim>\<open>parseContext\<close> reaches it on a configuration that enables tracing and has no
  post-plugin list, and panics too. The function for the pre-plugin list replaces a nil
  list by an empty one before it appends; this one does not.
\<close>

theorem registerTracingPluginIntoPostPlugins_empty_list_panics:
  "registerTracingPluginIntoPostPlugins growslice NilSlice ''skywalking''
     = Panic (SliceBoundsOutOfRange 1 0)
   \<and> registerTracingPluginIntoPostPlugins growslice (Slice [] []) ''skywalking''
       = Panic (SliceBoundsOutOfRange 1 0)
   \<and> parseContext (decodeTo tracingNoPostConfig) growslice selfHostEnv
       = Panic (SliceBoundsOutOfRange 1 0)"
  by (simp add: registerPost_empty_panics cap_def parseContext_tracingNoPostConfig)

section \<open>Properties of the runtime manager\<close>

subsection \<open>\<^verbatim>\<open>init\<close>\<close>

lemma initCalls_append [simp]: "initCalls P n (j @ k) = initCalls P n j + initCalls P n k"
  by (simp add: initCalls_def)

lemma initCalls_single [simp]:
  "initCalls P n [InitCall p] = (if PluginName P p = n then 1 else 0)"
  by (simp add: initCalls_def)

lemma initCalls_Nil [simp]: "initCalls P n [] = 0"
  by (simp add: initCalls_def)

text \<open>
  One loop of \<^verbatim>\<open>init\<close>: the map gains the names of the list, keeps the entries it had,
  \<^verbatim>\<open>Init()\<close> is called once for each name that was not in the map, and every plugin of
  the list is replaced by the entry of its name.
\<close>

lemma init_loop_props:
  assumes "init_loop P plugins new st w j = (new', st', w', j')"
  shows "dom (map_of st') = dom (map_of st) \<union> PluginName P ` set plugins
       \<and> (\<forall>n \<in> dom (map_of st). map_of st' n = map_of st n)
       \<and> (\<forall>n. initCalls P n j' = initCalls P n j
                 + (if n \<in> PluginName P ` set plugins - dom (map_of st) then 1 else 0))
       \<and> new' = new @ map (\<lambda>plg. the (map_of st' (PluginName P plg))) plugins"
  using assms
proof (induction plugins arbitrary: new st w j)
  case Nil
  then show ?case by simp
next
  case (Cons plg rest)
  let ?n = "PluginName P plg"
  show ?case
  proof (cases "map_of st ?n")
    case None
    obtain p w1 where i: "Init P plg w = (p, w1)" by (cases "Init P plg w")
    let ?st1 = "AList.update ?n p st"
    have m1: "map_of ?st1 = (map_of st)(?n \<mapsto> p)" by (simp add: update_conv')
    from Cons.prems None i
    have rec: "init_loop P rest (new @ [p]) ?st1 w1 (j @ [InitCall plg]) = (new', st', w', j')"
      by simp
    note IH = Cons.IH [OF rec]
    have d: "dom (map_of st') = dom (map_of st) \<union> PluginName P ` set (plg # rest)"
      using IH m1 by auto
    have keep1: "\<forall>n \<in> dom (map_of ?st1). map_of st' n = map_of ?st1 n"
      using IH by blast
    have keep: "\<forall>n \<in> dom (map_of st). map_of st' n = map_of st n"
    proof
      fix n assume n: "n \<in> dom (map_of st)"
      then have "n \<noteq> ?n" using None by auto
      moreover have "n \<in> dom (map_of ?st1)" using n m1 by auto
      ultimately show "map_of st' n = map_of st n" using keep1 m1 by simp
    qed
    have here: "map_of st' ?n = Some p"
      using keep1 m1 by simp
    have cnt: "\<forall>n. initCalls P n j' = initCalls P n j
                 + (if n \<in> PluginName P ` set (plg # rest) - dom (map_of st) then 1 else 0)"
    proof
      fix n
      have "initCalls P n j' = initCalls P n (j @ [InitCall plg])
              + (if n \<in> PluginName P ` set rest - dom (map_of ?st1) then 1 else 0)"
        using IH by blast
      then show "initCalls P n j' = initCalls P n j
                 + (if n \<in> PluginName P ` set (plg # rest) - dom (map_of st) then 1 else 0)"
        using None m1 by (auto simp: domIff)
    qed
    have nw: "new' = new @ map (\<lambda>plg. the (map_of st' (PluginName P plg))) (plg # rest)"
      using IH here by simp
    from d keep cnt nw show ?thesis by blast
  next
    case (Some existPlg)
    from Cons.prems Some
    have rec: "init_loop P rest (new @ [existPlg]) st w j = (new', st', w', j')"
      by simp
    note IH = Cons.IH [OF rec]
    have in_dom: "?n \<in> dom (map_of st)" using Some by auto
    have d: "dom (map_of st') = dom (map_of st) \<union> PluginName P ` set (plg # rest)"
      using IH in_dom by auto
    have keep: "\<forall>n \<in> dom (map_of st). map_of st' n = map_of st n"
      using IH by blast
    have here: "map_of st' ?n = Some existPlg"
      using keep in_dom Some by simp
    have cnt: "\<forall>n. initCalls P n j' = initCalls P n j
                 + (if n \<in> PluginName P ` set (plg # rest) - dom (map_of st) then 1 else 0)"
    proof
      fix n
      have "initCalls P n j' = initCalls P n j
              + (if n \<in> PluginName P ` set rest - dom (map_of st) then 1 else 0)"
        using IH by blast
      then show "initCalls P n j' = initCalls P n j
                 + (if n \<in> PluginName P ` set (plg # rest) - dom (map_of st) then 1 else 0)"
        using in_dom by auto
    qed
    have nw: "new' = new @ map (\<lambda>plg. the (map_of st' (PluginName P plg))) (plg # rest)"
      using IH here by simp
    from d keep cnt nw show ?thesis by blast
  qed
qed

lemma init_props:
  assumes "init P rm w [] = (rm', w', j')"
  shows "dom (map_of (pluginState rm'))
           = PluginName P ` (set (prePlugins rm) \<union> set (postPlugins rm))"
    and "\<forall>n. initCalls P n j'
           = (if n \<in> PluginName P ` (set (prePlugins rm) \<union> set (postPlugins rm)) then 1 else 0)"
    and "prePlugins rm'
           = map (\<lambda>plg. the (map_of (pluginState rm') (PluginName P plg))) (prePlugins rm)"
    and "postPlugins rm'
           = map (\<lambda>plg. the (map_of (pluginState rm') (PluginName P plg))) (postPlugins rm)"
proof -
  obtain n1 s1 w1 j1 where l1: "init_loop P (prePlugins rm) [] [] w [] = (n1, s1, w1, j1)"
    by (cases "init_loop P (prePlugins rm) [] [] w []") auto
  obtain n2 s2 w2 j2 where l2: "init_loop P (postPlugins rm) [] s1 w1 j1 = (n2, s2, w2, j2)"
    by (cases "init_loop P (postPlugins rm) [] s1 w1 j1") auto
  from assms l1 l2 have rm': "rm' = rm\<lparr>prePlugins := n1, postPlugins := n2, pluginState := s2\<rparr>"
    and j': "j' = j2"
    by (simp_all add: init_def)
  note p1 = init_loop_props [OF l1]
  note p2 = init_loop_props [OF l2]
  have d1: "dom (map_of s1) = PluginName P ` set (prePlugins rm)" using p1 by simp
  show "dom (map_of (pluginState rm'))
           = PluginName P ` (set (prePlugins rm) \<union> set (postPlugins rm))"
    using p2 d1 rm' by auto
  show "\<forall>n. initCalls P n j'
           = (if n \<in> PluginName P ` (set (prePlugins rm) \<union> set (postPlugins rm)) then 1 else 0)"
  proof
    fix n
    have a: "initCalls P n j1 = (if n \<in> PluginName P ` set (prePlugins rm) then 1 else 0)"
      using p1 by simp
    have b: "initCalls P n j2 = initCalls P n j1
                 + (if n \<in> PluginName P ` set (postPlugins rm) - dom (map_of s1) then 1 else 0)"
      using p2 by blast
    show "initCalls P n j'
           = (if n \<in> PluginName P ` (set (prePlugins rm) \<union> set (postPlugins rm)) then 1 else 0)"
      using a b d1 j' by (auto simp: image_Un)
  qed
  have "n1 = map (\<lambda>plg. the (map_of s1 (PluginName P plg))) (prePlugins rm)"
    using p1 by simp
  moreover have "\<forall>plg \<in> set (prePlugins rm).
                   map_of s2 (PluginName P plg) = map_of s1 (PluginName P plg)"
    using p2 d1 by auto
  ultimately show "prePlugins rm'
           = map (\<lambda>plg. the (map_of (pluginState rm') (PluginName P plg))) (prePlugins rm)"
    using rm' by simp
  show "postPlugins rm'
           = map (\<lambda>plg. the (map_of (pluginState rm') (PluginName P plg))) (postPlugins rm)"
    using p2 rm' by simp
qed

text \<open>
  Claim C6. In the manager of one invocation, \<^verbatim>\<open>Init()\<close> is called exactly once for each
  name that the plugins of the pre-list and of the post-list have, and never for another
  name. After \<^verbatim>\<open>init\<close> each entry of the two lists is the instance the plugin-state map
  holds for the name of the plugin it replaces; so a name in both lists has, at its place
  in the post-list, the instance that is at its place in the pre-list. The hooks of that
  instance run on one store, the post-hook after the pre-hook: the post-hook reads what
  the pre-hook wrote (the witness runs the pre-list \<^verbatim>\<open>[A, B]\<close> and the post-list
  \<^verbatim>\<open>[B, A]\<close>).
\<close>

theorem init_once_per_name:
  assumes "init P rm w [] = (rm', w', j')"
  shows "(\<forall>n. initCalls P n j'
            = (if n \<in> PluginName P ` (set (prePlugins rm) \<union> set (postPlugins rm))
               then 1 else 0))
       \<and> length (prePlugins rm') = length (prePlugins rm)
       \<and> length (postPlugins rm') = length (postPlugins rm)
       \<and> (\<forall>i < length (prePlugins rm).
             map_of (pluginState rm') (PluginName P (prePlugins rm ! i))
               = Some (prePlugins rm' ! i))
       \<and> (\<forall>k < length (postPlugins rm).
             map_of (pluginState rm') (PluginName P (postPlugins rm ! k))
               = Some (postPlugins rm' ! k))
       \<and> (\<forall>i < length (prePlugins rm). \<forall>k < length (postPlugins rm).
             PluginName P (prePlugins rm ! i) = PluginName P (postPlugins rm ! k)
               \<longrightarrow> prePlugins rm' ! i = postPlugins rm' ! k)"
proof -
  note p = init_props [OF assms]
  let ?inst = "\<lambda>plg. the (map_of (pluginState rm') (PluginName P plg))"
  have pre: "\<forall>i < length (prePlugins rm).
               map_of (pluginState rm') (PluginName P (prePlugins rm ! i))
                 = Some (prePlugins rm' ! i)"
  proof (intro allI impI)
    fix i assume i: "i < length (prePlugins rm)"
    then have "PluginName P (prePlugins rm ! i) \<in> dom (map_of (pluginState rm'))"
      using p(1) by auto
    moreover have "prePlugins rm' ! i = ?inst (prePlugins rm ! i)"
      using p(3) i by (metis nth_map)
    ultimately show "map_of (pluginState rm') (PluginName P (prePlugins rm ! i))
                       = Some (prePlugins rm' ! i)" by auto
  qed
  have post: "\<forall>k < length (postPlugins rm).
               map_of (pluginState rm') (PluginName P (postPlugins rm ! k))
                 = Some (postPlugins rm' ! k)"
  proof (intro allI impI)
    fix k assume k: "k < length (postPlugins rm)"
    then have "PluginName P (postPlugins rm ! k) \<in> dom (map_of (pluginState rm'))"
      using p(1) by auto
    moreover have "postPlugins rm' ! k = ?inst (postPlugins rm ! k)"
      using p(4) k by (metis nth_map)
    ultimately show "map_of (pluginState rm') (PluginName P (postPlugins rm ! k))
                       = Some (postPlugins rm' ! k)" by auto
  qed
  have l1: "length (prePlugins rm') = length (prePlugins rm)"
    using p(3) by (metis length_map)
  have l2: "length (postPlugins rm') = length (postPlugins rm)"
    using p(4) by (metis length_map)
  have same: "\<forall>i < length (prePlugins rm). \<forall>k < length (postPlugins rm).
             PluginName P (prePlugins rm ! i) = PluginName P (postPlugins rm ! k)
               \<longrightarrow> prePlugins rm' ! i = postPlugins rm' ! k"
    using pre post by (metis option.inject)
  from p(2) l1 l2 pre post same show ?thesis by blast
qed

lemma init_demo:
  "init demoPlugin demoManager demoWorld []
     = (demoManager\<lparr>prePlugins := [(''plugin-a'', 3), (''plugin-b'', 4)],
                     postPlugins := [(''plugin-b'', 4), (''plugin-a'', 3)],
                     pluginState := [(''plugin-a'', (''plugin-a'', 3)),
                                     (''plugin-b'', (''plugin-b'', 4))]\<rparr>,
        demoWorld\<lparr>insts := [0, 0, 0, 0, 0]\<rparr>,
        [InitCall (''plugin-a'', 0), InitCall (''plugin-b'', 1)])"
  by (simp add: init_def demoManager_def demoPlugin_def demoWorld_def)

lemma run_demo:
  "FunctionRunWrapperWithHooks demoPlugin
     (demoManager\<lparr>prePlugins := [(''plugin-a'', 3), (''plugin-b'', 4)],
                   postPlugins := [(''plugin-b'', 4), (''plugin-a'', 3)],
                   pluginState := [(''plugin-a'', (''plugin-a'', 3)),
                                   (''plugin-b'', (''plugin-b'', 4))]\<rparr>)
     (OpenFunction helloFunction) (demoWorld\<lparr>insts := [0, 0, 0, 0, 0]\<rparr>) []
   = Val (demoManager\<lparr>prePlugins := [(''plugin-a'', 3), (''plugin-b'', 4)],
                        postPlugins := [(''plugin-b'', 4), (''plugin-a'', 3)],
                        pluginState := [(''plugin-a'', (''plugin-a'', 3)),
                                        (''plugin-b'', (''plugin-b'', 4))]\<rparr>,
          demoWorld\<lparr>fctx := demoContext\<lparr>OutPtr := Some 0\<rparr>,
                      outs := [\<lparr>Code = 200, Data = Some ''hello there'', OutMetadata = []\<rparr>],
                      insts := [0, 0, 0, 1, 1], seen := [1, 2]\<rparr>,
          [PreHookCall (''plugin-a'', 3), PreHookCall (''plugin-b'', 4), FunctionCall,
           PostHookCall (''plugin-b'', 4), PostHookCall (''plugin-a'', 3)])"
  by (simp add: FunctionRunWrapperWithHooks_def ProcessPreHooks_def ProcessPostHooks_def
      callFunction_def demoManager_def demoPlugin_def demoWorld_def demoContext_def
      newContext_def helloFunction_def ReturnOnSuccess_def new_Out_def WithData_def
      WithOut_def WithError_def emptyEventMetadata_def Success_def)

theorem init_once_per_name_witness:
  "init demoPlugin demoManager demoWorld []
     = (demoManager\<lparr>prePlugins := [(''plugin-a'', 3), (''plugin-b'', 4)],
                     postPlugins := [(''plugin-b'', 4), (''plugin-a'', 3)],
                     pluginState := [(''plugin-a'', (''plugin-a'', 3)),
                                     (''plugin-b'', (''plugin-b'', 4))]\<rparr>,
        demoWorld\<lparr>insts := [0, 0, 0, 0, 0]\<rparr>,
        [InitCall (''plugin-a'', 0), InitCall (''plugin-b'', 1)])
   \<and> initCalls demoPlugin ''plugin-b'' [InitCall (''plugin-a'', 0), InitCall (''plugin-b'', 1)] = 1
   \<and> initCalls demoPlugin ''plugin-c'' [InitCall (''plugin-a'', 0), InitCall (''plugin-b'', 1)] = 0
   \<and> [(''plugin-a'', 3 :: nat), (''plugin-b'', 4)] ! 1 = [(''plugin-b'', 4), (''plugin-a'', 3)] ! 0
   \<and> seen (store_after
        (FunctionRunWrapperWithHooks demoPlugin
           (demoManager\<lparr>prePlugins := [(''plugin-a'', 3), (''plugin-b'', 4)],
                         postPlugins := [(''plugin-b'', 4), (''plugin-a'', 3)],
                         pluginState := [(''plugin-a'', (''plugin-a'', 3)),
                                         (''plugin-b'', (''plugin-b'', 4))]\<rparr>)
           (OpenFunction helloFunction) (demoWorld\<lparr>insts := [0, 0, 0, 0, 0]\<rparr>) [])
        demoWorld) = [1, 2]"
proof -
  note t = init_once_per_name [OF init_demo]
  have b: "initCalls demoPlugin ''plugin-b'' [InitCall (''plugin-a'', 0), InitCall (''plugin-b'', 1)] = 1"
    using t [THEN conjunct1, rule_format, of "''plugin-b''"]
    by (simp add: demoManager_def demoPlugin_def)
  have c: "initCalls demoPlugin ''plugin-c'' [InitCall (''plugin-a'', 0), InitCall (''plugin-b'', 1)] = 0"
    using t [THEN conjunct1, rule_format, of "''plugin-c''"]
    by (simp add: demoManager_def demoPlugin_def)
  have s: "[(''plugin-a'', 3 :: nat), (''plugin-b'', 4)] ! 1 = [(''plugin-b'', 4), (''plugin-a'', 3)] ! 0"
    by simp
  show ?thesis
    using init_demo b c s by (simp add: run_demo store_after_def)
qed

subsection \<open>Hook errors\<close>

lemma calls_append [simp]: "calls (j @ k) = calls j @ calls k"
  by (simp add: calls_def)

lemma calls_warn [simp]:
  "calls (case err of None \<Rightarrow> [] | Some e \<Rightarrow> [WarnPrePhase n e]) = []"
  "calls (case err of None \<Rightarrow> [] | Some e \<Rightarrow> [WarnPostPhase n e]) = []"
  by (simp_all add: calls_def split: option.splits)

lemma calls_simps [simp]:
  "calls [] = []" "calls (e # j) = (if is_warning e then calls j else e # calls j)"
  by (simp_all add: calls_def)







text \<open>
  The step between the two loops calls the function: an event function gets the data of
  the binding event if there is one, else the bytes of the topic event, else nil, and its
  \<^verbatim>\<open>Out\<close> and its error go to the context.
\<close>

lemma callFunction_OpenFunction:
  assumes "EventMeta (fctx w) = Some em"
    and "f (case BindingEventMeta em of
              Some be \<Rightarrow> BindingData be
            | None \<Rightarrow> (case TopicEventMeta em of
                         Some te \<Rightarrow> convertTopicEventToByte (TopicData te)
                       | None \<Rightarrow> None)) w = (OutPointer p, err, w1)"
  shows "callFunction (OpenFunction f) w = Val (WithError err (WithOut p w1), True)"
  using assms by (simp add: callFunction_def)







section \<open>Properties of the async runtime\<close>

subsection \<open>The topic handler\<close>

lemma init_FuncOut: "init P rm w j = (rm', w', j') \<Longrightarrow> FuncOut rm' = FuncOut rm"
  by (auto simp: init_def Let_def split: prod.splits)

lemma NewRuntimeManager_FuncOut:
  "NewRuntimeManager P pre post w j = (rm, w1, j1) \<Longrightarrow>
     FuncOut rm = (case OutPtr (fctx w) of Some p \<Rightarrow> p | None \<Rightarrow> length (outs w))"
  by (auto simp: NewRuntimeManager_def NewFunctionOut_def new_Out_def Let_def
      dest!: init_FuncOut split: option.splits prod.splits)

lemma FunctionRunWrapperWithHooks_FuncOut:
  "FunctionRunWrapperWithHooks P rm fn w j = Val (rm', w', j') \<Longrightarrow> FuncOut rm' = FuncOut rm"
  by (auto simp: FunctionRunWrapperWithHooks_def ProcessPreHooks_def ProcessPostHooks_def
      Let_def split: prod.splits go.splits)

text \<open>
  What the topic handler maps is the \<^verbatim>\<open>Out\<close> the manager took when it was made: the one
  the context pointed to before the call, or a new one with code 0. The function's
  \<^verbatim>\<open>Out\<close> goes to the context with \<^verbatim>\<open>WithOut\<close>; the manager's \<^verbatim>\<open>FuncOut\<close> is not
  assigned again.
\<close>

lemma topicHandler_maps_FuncOut:
  assumes "topicHandler P pre post fn name ev w j = Val ((retry, err), w', j')"
    and "out = deref w' (case OutPtr (fctx w) of Some p \<Rightarrow> p | None \<Rightarrow> length (outs w))"
  shows "(retry, err) =
           (if Code out = Success then (False, None)
            else if Code out = InternalError
            then (case map_of (OutMetadata out) ''retry'' of
                    Some r \<Rightarrow> EqualFold r ''true''
                  | None \<Rightarrow> False, GetError w')
            else (False, None))"
proof -
  obtain rm w1 j1 where n: "NewRuntimeManager P pre post w j = (rm, w1, j1)"
    by (cases "NewRuntimeManager P pre post w j") auto
  from assms(1) n obtain ctx2 logged where
    s: "SetEventMeta (fctx w1) name (TopicEventPtr ev) = Val (ctx2, logged)"
    by (auto simp: topicHandler_def split: go.splits)
  from assms(1) n s obtain rm3 where
    r: "FunctionRunWrapperWithHooks P rm fn (w1\<lparr>fctx := ctx2\<rparr>) (j1 @ map LogError logged)
          = Val (rm3, w', j')"
    by (auto simp: topicHandler_def Let_def split: go.splits if_splits option.splits)
  have f: "FuncOut rm3 = (case OutPtr (fctx w) of Some p \<Rightarrow> p | None \<Rightarrow> length (outs w))"
    using FunctionRunWrapperWithHooks_FuncOut [OF r] NewRuntimeManager_FuncOut [OF n] by simp
  from assms(1) n s r show ?thesis
    unfolding assms(2) f [symmetric]
    by (auto simp: topicHandler_def Let_def split: if_splits option.splits)
qed

lemma topicHandler_first_call:
  "topicHandler demoPlugin [] [] (OpenFunction failingFunction) ''sub'' (Some demoEvent)
     demoWorld []
   = Val ((False, None),
          demoWorld\<lparr>fctx := demoContext\<lparr>
                        EventMeta := Some (emptyEventMetadata\<lparr>InputName := ''sub'',
                                             TopicEventMeta := Some demoEvent\<rparr>),
                        OutPtr := Some 1, Error := Some (External ''boom'')\<rparr>,
                      outs := [\<lparr>Code = 0, Data = None, OutMetadata = []\<rparr>,
                               \<lparr>Code = 500, Data = None,
                                OutMetadata = [(''retry'', ''true'')]\<rparr>]\<rparr>,
          [FunctionCall])"
  by (simp add: topicHandler_def NewRuntimeManager_def NewFunctionOut_def new_Out_def init_def
      SetEventMeta_def FunctionRunWrapperWithHooks_def ProcessPreHooks_def
      ProcessPostHooks_def callFunction_def demoWorld_def demoContext_def newContext_def
      emptyEventMetadata_def demoEvent_def convertTopicEventToByte_def failingFunction_def
      WithOut_def WithError_def deref_def Success_def InternalError_def GetError_def)

lemma topicHandler_second_call:
  "topicHandler demoPlugin [] [] (OpenFunction helloFunction) ''sub'' (Some demoEvent)
     (demoWorld\<lparr>fctx := demoContext\<lparr>
                        EventMeta := Some (emptyEventMetadata\<lparr>InputName := ''sub'',
                                             TopicEventMeta := Some demoEvent\<rparr>),
                        OutPtr := Some 1, Error := Some (External ''boom'')\<rparr>,
                      outs := [\<lparr>Code = 0, Data = None, OutMetadata = []\<rparr>,
                               \<lparr>Code = 500, Data = None,
                                OutMetadata = [(''retry'', ''true'')]\<rparr>]\<rparr>) []
   = Val ((True, None),
          demoWorld\<lparr>fctx := demoContext\<lparr>
                        EventMeta := Some (emptyEventMetadata\<lparr>InputName := ''sub'',
                                             TopicEventMeta := Some demoEvent\<rparr>),
                        OutPtr := Some 2, Error := None\<rparr>,
                      outs := [\<lparr>Code = 0, Data = None, OutMetadata = []\<rparr>,
                               \<lparr>Code = 500, Data = None,
                                OutMetadata = [(''retry'', ''true'')]\<rparr>,
                               \<lparr>Code = 200, Data = Some ''hello there'',
                                OutMetadata = []\<rparr>]\<rparr>,
          [FunctionCall])"
  by (simp add: topicHandler_def NewRuntimeManager_def NewFunctionOut_def new_Out_def init_def
      SetEventMeta_def FunctionRunWrapperWithHooks_def ProcessPreHooks_def
      ProcessPostHooks_def callFunction_def demoWorld_def demoContext_def newContext_def
      emptyEventMetadata_def demoEvent_def convertTopicEventToByte_def helloFunction_def
      ReturnOnSuccess_def WithData_def
      WithOut_def WithError_def deref_def Success_def InternalError_def GetError_def
      EqualFold_def lower_def)

text \<open>
  Claim C2, at the first event a topic handler gets, for a function that returns the code
  \<^verbatim>\<open>InternalError\<close>, the metadata \<^verbatim>\<open>retry: true\<close> and an error: the handler returns
  (retry = false, err = nil), where the claim has (retry = true, the function's error).
  On the next event, for a function that returns \<^verbatim>\<open>Success\<close> and no error, the handler
  returns (retry = true, err = nil), where the claim has (retry = false, err = nil): it
  maps the \<^verbatim>\<open>Out\<close> of the call before.
\<close>

theorem topicHandler_ignores_function_Out:
  "returned (topicHandler demoPlugin [] [] (OpenFunction failingFunction) ''sub''
               (Some demoEvent) demoWorld [])
     = Val (False, None)
   \<and> returned (topicHandler demoPlugin [] [] (OpenFunction helloFunction) ''sub''
                 (Some demoEvent)
                 (store_after (topicHandler demoPlugin [] [] (OpenFunction failingFunction)
                                 ''sub'' (Some demoEvent) demoWorld []) demoWorld) [])
       = Val (True, None)"
  unfolding topicHandler_first_call store_after_def go.case prod.case
    topicHandler_second_call returned_def
  by simp

subsection \<open>\<^verbatim>\<open>RegisterOpenFunction\<close>\<close>

text \<open>
  Claim C8, at a context whose \<^verbatim>\<open>Inputs\<close> map is nil, so that it declares no input:
  \<^verbatim>\<open>RegisterOpenFunction\<close> returns nil, where the claim has it fail with the error for a
  function without inputs. No handler is attached to the service, as the claim says.
\<close>

theorem RegisterOpenFunction_nil_inputs_succeeds:
  "RegisterOpenFunction listService True noClient ''50001'' (demoContext\<lparr>Inputs := None\<rparr>) []
     = Val (None, demoContext\<lparr>Inputs := None\<rparr>, [], [])"
  by (rule RegisterOpenFunction_nil_inputs) (simp_all add: InitDaprClientIfNil_def)

end
